theory Spec2Isabelle
  imports Complex_Main "HOL-Library.Word"
begin

section \<open>Execution types (execution.h)\<close>

text \<open>
  The C++ type \<^verbatim>\<open>int\<close> of the arity fields is a 32-bit two's complement integer:
  \<open>sint\<close> reads the signed value, and \<open>+\<close> and \<open>-\<close> wrap around, as the machine does
  where the language leaves the overflow of a signed integer undefined.
\<close>

type_synonym cint = "32 word"

text \<open>
  \<^verbatim>\<open>struct value\<close>: a named value cell. Cells live on the heap and are reached through
  shared pointers; a pointer is modelled by the address of the cell in the store.
\<close>

record 'v value_cell =
  value_name :: string
  val :: 'v

record 'v heap =
  cells :: "nat \<Rightarrow> 'v value_cell"
  next_free :: nat

text \<open>
  \<^verbatim>\<open>struct function_i\<close> with its constant fields. The last field records the dynamic
  type of the object, that is, which \<^verbatim>\<open>operator()\<close> a call dispatches to:
  \<^verbatim>\<open>function< unary_function< T >, T >\<close>, \<^verbatim>\<open>function< binary_function< T >, T >\<close>,
  \<^verbatim>\<open>scalar_assign\<close>, \<^verbatim>\<open>vector_assign< T, N >\<close>, \<^verbatim>\<open>dotprod3\<close>, \<^verbatim>\<open>crossprod3\<close> and
  \<^verbatim>\<open>vector_op_apply< T, N >\<close> with the function object it owns.
\<close>

datatype 'v function_i =
  Function_i (name: string) (values_in: cint) (values_out: cint)
             (lvalues_in: cint) (rvalues_in: cint) (kind: "'v fun_kind")
and 'v fun_kind =
    Unary_function "'v \<Rightarrow> 'v"
  | Binary_function "'v \<Rightarrow> 'v \<Rightarrow> 'v"
  | Scalar_assign
  | Vector_assign nat
  | Dotprod3
  | Crossprod3
  | Vector_op_apply nat "'v function_i"

text \<open>
  The constructor \<^verbatim>\<open>function_i( n, in, out, lin )\<close>:
  \<^verbatim>\<open>name( n ), values_in( in ), values_out( out ), lvalues_in( lin ), rvalues_in( in - lin )\<close>.
\<close>

definition function_i :: "string \<Rightarrow> cint \<Rightarrow> cint \<Rightarrow> cint \<Rightarrow> 'v fun_kind \<Rightarrow> 'v function_i" where
  "function_i n n_in n_out lin k = Function_i n n_in n_out lin (n_in - lin) k"

text \<open>The three instructions \<^verbatim>\<open>load_val\<close>, \<^verbatim>\<open>load_var\<close> and \<^verbatim>\<open>call_fun\<close>.\<close>

datatype 'v instruction =
    load_val 'v
  | load_var nat
  | call_fun "'v function_i"

text \<open>
  \<^verbatim>\<open>struct rte\<close>. The tables hold shared pointers: function objects are immutable and are
  kept by value, value cells are kept by address. \<open>prog_p\<close> is a plain pointer to a program
  and may be null (\<open>None\<close>). The head of \<open>stack\<close> is the top of the value stack.
\<close>

record 'v rte =
  fun_tab :: "'v function_i list"
  var_tab :: "nat list"
  const_tab :: "nat list"
  prog_p :: "'v instruction list option"
  stack :: "'v list"
  exe_stack :: "nat list"
  ip :: nat

text \<open>
  What a call can do: return with a result and the machine in a new state, leave by a C++
  exception with the machine in the state reached at the \<^verbatim>\<open>throw\<close>, or do something the
  language leaves undefined (\<^verbatim>\<open>top\<close> or \<^verbatim>\<open>pop\<close> on an empty stack, an index outside a
  vector, a null pointer dereferenced, an uninitialised value read).
\<close>

datatype exception =
    invalid_assign
  | null_token
  | unknown_token string
  | invalid_name string
  | std_exception string

datatype ('r, 's) outcome =
    Done 'r 's
  | Throw exception 's
  | Undefined

type_synonym 'v machine = "'v heap \<times> 'v rte"

subsection \<open>Lookup in the run-time environment\<close>

primrec scan_by_name :: "string \<Rightarrow> 'v function_i list \<Rightarrow> 'v function_i option" where
  "scan_by_name s [] = None"
| "scan_by_name s (f # fs) = (if name f = s then Some f else scan_by_name s fs)"

primrec scan_by_name_args ::
  "string \<Rightarrow> cint \<Rightarrow> cint \<Rightarrow> 'v function_i list \<Rightarrow> 'v function_i option" where
  "scan_by_name_args s rargs largs [] = None"
| "scan_by_name_args s rargs largs (f # fs) =
     (if name f = s \<and> rvalues_in f = rargs \<and> lvalues_in f = largs then Some f
      else scan_by_name_args s rargs largs fs)"

definition function_p :: "'v rte \<Rightarrow> string \<Rightarrow> cint \<Rightarrow> cint \<Rightarrow> 'v function_i option" where
  "function_p rt s rargs largs =
     (if sint rargs < 0 then scan_by_name s (fun_tab rt)
      else scan_by_name_args s rargs largs (fun_tab rt))"

primrec scan_cells :: "'v heap \<Rightarrow> string \<Rightarrow> nat list \<Rightarrow> nat option" where
  "scan_cells h n [] = None"
| "scan_cells h n (a # as) =
     (if value_name (cells h a) = n then Some a else scan_cells h n as)"

definition variable_p :: "'v machine \<Rightarrow> string \<Rightarrow> nat option" where
  "variable_p m n = scan_cells (fst m) n (var_tab (snd m))"

definition constant_p :: "'v machine \<Rightarrow> string \<Rightarrow> nat option" where
  "constant_p m n = scan_cells (fst m) n (const_tab (snd m))"

lemma scan_by_name_find: "scan_by_name s fs = find (\<lambda>f. name f = s) fs"
  by (induction fs) simp_all

lemma scan_by_name_args_find:
  "scan_by_name_args s rargs largs fs =
     find (\<lambda>f. name f = s \<and> rvalues_in f = rargs \<and> lvalues_in f = largs) fs"
  by (induction fs) simp_all


section \<open>Function objects (adaptors.h, def\_rte.h)\<close>

type_synonym 'v effect = "'v machine \<Rightarrow> (unit, 'v machine) outcome"

text \<open>\<^verbatim>\<open>unary_function::operator()\<close>: \<^verbatim>\<open>val_type& st = rt.stack.top(); st = f( st );\<close>\<close>

definition unary_function :: "('v \<Rightarrow> 'v) \<Rightarrow> 'v effect" where
  "unary_function f m =
     (case m of (h, rt) \<Rightarrow>
        (case stack rt of
           [] \<Rightarrow> Undefined
         | st # s \<Rightarrow> Done () (h, rt\<lparr>stack := f st # s\<rparr>)))"

text \<open>
  \<^verbatim>\<open>binary_function::operator()\<close>: the top is the second operand; it is popped and the new
  top is overwritten with \<^verbatim>\<open>f( op1, op2 )\<close>.
\<close>

definition binary_function :: "('v \<Rightarrow> 'v \<Rightarrow> 'v) \<Rightarrow> 'v effect" where
  "binary_function f m =
     (case m of (h, rt) \<Rightarrow>
        (case stack rt of
           op2 # op1 # s \<Rightarrow> Done () (h, rt\<lparr>stack := f op1 op2 # s\<rparr>)
         | _ \<Rightarrow> Undefined))"

text \<open>
  \<^verbatim>\<open>prog[ rt.ip - k ]\<close>. The instruction pointer is an unsigned \<^verbatim>\<open>size_type\<close>: for
  \<open>ip < k\<close> the difference wraps around to one of the \<open>k\<close> largest values of the type,
  which is beyond the size of any vector, and the access is out of range like every other
  index \<open>\<ge> length prog\<close>.
\<close>

definition prog_at :: "'v instruction list \<Rightarrow> nat \<Rightarrow> nat \<Rightarrow> 'v instruction option" where
  "prog_at prog i k =
     (if i < k \<or> length prog \<le> i - k then None else Some (prog ! (i - k)))"

definition set_val :: "'v heap \<Rightarrow> nat \<Rightarrow> 'v \<Rightarrow> 'v heap" where
  "set_val h a v = h\<lparr>cells := (cells h)(a := (cells h a)\<lparr>val := v\<rparr>)\<rparr>"

text \<open>
  \<^verbatim>\<open>scalar_assign::operator()\<close>: bind \<^verbatim>\<open>prog\<close> to \<^verbatim>\<open>*rt.prog_p\<close>, pop the value of the
  variable, look at the instruction before the current one, throw unless it is a
  \<^verbatim>\<open>load_var\<close>, then copy the new top of the stack into the cell the instruction points to.
\<close>

definition scalar_assign_call :: "'v effect" where
  "scalar_assign_call m =
     (case m of (h, rt) \<Rightarrow>
        (case prog_p rt of
           None \<Rightarrow> Undefined
         | Some prog \<Rightarrow>
             (case stack rt of
                [] \<Rightarrow> Undefined
              | x # s \<Rightarrow>
                  (case prog_at prog (ip rt) 1 of
                     None \<Rightarrow> Undefined
                   | Some (load_var a) \<Rightarrow>
                       (case s of
                          [] \<Rightarrow> Undefined
                        | v # _ \<Rightarrow> Done () (set_val h a v, rt\<lparr>stack := s\<rparr>))
                   | Some _ \<Rightarrow> Throw invalid_assign (h, rt\<lparr>stack := s\<rparr>)))))"

text \<open>
  \<^verbatim>\<open>vector_assign< T, N >::operator()\<close>, loop by loop. First loop: pop up to \<open>N\<close> values,
  stopping when the stack is empty.
\<close>

fun pop_values :: "nat \<Rightarrow> 'v list \<Rightarrow> 'v list" where
  "pop_values 0 s = s"
| "pop_values (Suc n) [] = []"
| "pop_values (Suc n) (x # s) = pop_values n s"

text \<open>
  Second loop, \<^verbatim>\<open>for( int i = 0; i != N && !rt.stack.empty(); ++i )\<close>, with \<open>k = N - i\<close>
  iterations to go and \<open>v\<close> the initialised prefix \<^verbatim>\<open>v[ 0 ] .. v[ i - 1 ]\<close> of the local array.
\<close>

fun assign_values ::
  "nat \<Rightarrow> nat \<Rightarrow> 'v instruction list \<Rightarrow> 'v list \<Rightarrow> 'v machine \<Rightarrow> ('v list, 'v machine) outcome" where
  "assign_values 0 i prog v m = Done v m"
| "assign_values (Suc k) i prog v (h, rt) =
     (case stack rt of
        [] \<Rightarrow> Done v (h, rt)
      | x # s \<Rightarrow>
          (case prog_at prog (ip rt) (1 + i) of
             None \<Rightarrow> Undefined
           | Some (load_var a) \<Rightarrow>
               assign_values k (Suc i) prog (v @ [x]) (set_val h a x, rt\<lparr>stack := s\<rparr>)
           | Some _ \<Rightarrow> Throw invalid_assign (h, rt)))"

text \<open>
  Last loop, \<^verbatim>\<open>for( int i = ( N - 1 ); i >= 0; --i ) rt.stack.push( v[ i ] )\<close>, with \<open>n = i + 1\<close>.
  Reading an element of the local array that was never written is undefined (\<open>None\<close>).
\<close>

fun push_values :: "nat \<Rightarrow> 'v list \<Rightarrow> 'v list \<Rightarrow> 'v list option" where
  "push_values 0 v s = Some s"
| "push_values (Suc i) v s = (if i < length v then push_values i v (v ! i # s) else None)"

definition vector_assign_call :: "nat \<Rightarrow> 'v effect" where
  "vector_assign_call N m =
     (case m of (h, rt) \<Rightarrow>
        (case prog_p rt of
           None \<Rightarrow> Undefined
         | Some prog \<Rightarrow>
             (case assign_values N 0 prog [] (h, rt\<lparr>stack := pop_values N (stack rt)\<rparr>) of
                Done v (h', rt') \<Rightarrow>
                  (case push_values N v (stack rt') of
                     None \<Rightarrow> Undefined
                   | Some s \<Rightarrow> Done () (h', rt'\<lparr>stack := s\<rparr>))
              | Throw e m' \<Rightarrow> Throw e m'
              | Undefined \<Rightarrow> Undefined)))"

text \<open>\<^verbatim>\<open>dotprod3::operator()\<close> and \<^verbatim>\<open>crossprod3::operator()\<close>: six values are read and popped.\<close>

definition dotprod3_call :: "('v::{plus,times}) effect" where
  "dotprod3_call m =
     (case m of (h, rt) \<Rightarrow>
        (case stack rt of
           z2 # y2 # x2 # z1 # y1 # x1 # s \<Rightarrow>
             Done () (h, rt\<lparr>stack := (x1 * x2 + y1 * y2 + z1 * z2) # s\<rparr>)
         | _ \<Rightarrow> Undefined))"

definition crossprod3_call :: "('v::{minus,times}) effect" where
  "crossprod3_call m =
     (case m of (h, rt) \<Rightarrow>
        (case stack rt of
           z2 # y2 # x2 # z1 # y1 # x1 # s \<Rightarrow>
             Done () (h, rt\<lparr>stack :=
               (x1 * y2 - x2 * y1) # (x2 * z1 - x1 * z2) # (y1 * z2 - y2 * z1) # s\<rparr>)
         | _ \<Rightarrow> Undefined))"

text \<open>
  \<^verbatim>\<open>vector_op_apply< T, N >::operator()\<close>. The first two loops read and pop \<open>N\<close> values
  each, without looking whether the stack is empty.
\<close>

fun read_values :: "nat \<Rightarrow> 'v list \<Rightarrow> ('v list \<times> 'v list) option" where
  "read_values 0 s = Some ([], s)"
| "read_values (Suc n) [] = None"
| "read_values (Suc n) (x # s) =
     (case read_values n s of None \<Rightarrow> None | Some (v, r) \<Rightarrow> Some (x # v, r))"

text \<open>
  Third loop: push \<^verbatim>\<open>v1[ i ]\<close> and \<^verbatim>\<open>v2[ i ]\<close>, call the owned function object, read and pop
  its result into \<^verbatim>\<open>vo[ i ]\<close>.
\<close>

fun apply_each ::
  "'v effect \<Rightarrow> 'v list \<Rightarrow> 'v list \<Rightarrow> 'v machine \<Rightarrow> ('v list, 'v machine) outcome" where
  "apply_each fp (a # v1) (b # v2) (h, rt) =
     (case fp (h, rt\<lparr>stack := b # a # stack rt\<rparr>) of
        Done _ (h', rt') \<Rightarrow>
          (case stack rt' of
             [] \<Rightarrow> Undefined
           | r # s \<Rightarrow>
               (case apply_each fp v1 v2 (h', rt'\<lparr>stack := s\<rparr>) of
                  Done vo m' \<Rightarrow> Done (r # vo) m'
                | Throw e m' \<Rightarrow> Throw e m'
                | Undefined \<Rightarrow> Undefined))
      | Throw e m' \<Rightarrow> Throw e m'
      | Undefined \<Rightarrow> Undefined)"
| "apply_each fp v1 v2 m = Done [] m"

definition vector_op_apply_call :: "nat \<Rightarrow> 'v effect \<Rightarrow> 'v effect" where
  "vector_op_apply_call N fp m =
     (case m of (h, rt) \<Rightarrow>
        (case read_values N (stack rt) of
           None \<Rightarrow> Undefined
         | Some (v2, s2) \<Rightarrow>
             (case read_values N s2 of
                None \<Rightarrow> Undefined
              | Some (v1, s1) \<Rightarrow>
                  (case apply_each fp v1 v2 (h, rt\<lparr>stack := s1\<rparr>) of
                     Done vo (h', rt') \<Rightarrow>
                       (case push_values N vo (stack rt') of
                          None \<Rightarrow> Undefined
                        | Some s \<Rightarrow> Done () (h', rt'\<lparr>stack := s\<rparr>))
                   | Throw e m' \<Rightarrow> Throw e m'
                   | Undefined \<Rightarrow> Undefined))))"

text \<open>The virtual call \<^verbatim>\<open>( *fun_p )( rt )\<close>, dispatched on the dynamic type of the object.\<close>

primrec call :: "('v::{plus,minus,times}) function_i \<Rightarrow> 'v effect"
  and call_kind :: "'v fun_kind \<Rightarrow> 'v effect" where
  "call (Function_i n n_in n_out lin rin k) = call_kind k"
| "call_kind (Unary_function f) = unary_function f"
| "call_kind (Binary_function f) = binary_function f"
| "call_kind Scalar_assign = scalar_assign_call"
| "call_kind (Vector_assign N) = vector_assign_call N"
| "call_kind Dotprod3 = dotprod3_call"
| "call_kind Crossprod3 = crossprod3_call"
| "call_kind (Vector_op_apply N fp) = vector_op_apply_call N (call fp)"

text \<open>\<^verbatim>\<open>instruction::exec\<close> for the three instructions.\<close>

fun exec :: "('v::{plus,minus,times}) instruction \<Rightarrow> 'v effect" where
  "exec (load_val v) (h, rt) = Done () (h, rt\<lparr>stack := v # stack rt\<rparr>)"
| "exec (load_var a) (h, rt) = Done () (h, rt\<lparr>stack := val (cells h a) # stack rt\<rparr>)"
| "exec (call_fun f) m = call f m"


section \<open>The virtual machine (vm.h)\<close>

text \<open>
  No function object of the library writes the instruction pointer: a call that returns
  leaves it where it was. The loop of \<^verbatim>\<open>vm::run\<close> terminates for this reason.
\<close>

definition keeps_ip :: "'v effect \<Rightarrow> bool" where
  "keeps_ip e = (\<forall>h rt u h' rt'. e (h, rt) = Done u (h', rt') \<longrightarrow> ip rt' = ip rt)"

lemma keeps_ipD: "keeps_ip e \<Longrightarrow> e (h, rt) = Done u (h', rt') \<Longrightarrow> ip rt' = ip rt"
  unfolding keeps_ip_def by blast

lemma unary_function_ip: "keeps_ip (unary_function f)"
  by (auto simp: keeps_ip_def unary_function_def split: list.splits)

lemma binary_function_ip: "keeps_ip (binary_function f)"
  by (auto simp: keeps_ip_def binary_function_def split: list.splits)

lemma scalar_assign_ip: "keeps_ip scalar_assign_call"
  by (auto simp: keeps_ip_def scalar_assign_call_def
      split: list.splits option.splits instruction.splits)

lemma assign_values_ip:
  "assign_values k i prog v (h, rt) = Done v' (h', rt') \<Longrightarrow> ip rt' = ip rt"
proof (induction k arbitrary: i v h rt)
  case 0
  then show ?case by simp
next
  case (Suc k)
  then show ?case
    by (fastforce split: list.splits option.splits instruction.splits)
qed

lemma vector_assign_ip: "keeps_ip (vector_assign_call N)"
  by (auto simp: keeps_ip_def vector_assign_call_def dest!: assign_values_ip
      split: list.splits option.splits outcome.splits)

lemma dotprod3_ip: "keeps_ip dotprod3_call"
  by (auto simp: keeps_ip_def dotprod3_call_def split: list.splits)

lemma crossprod3_ip: "keeps_ip crossprod3_call"
  by (auto simp: keeps_ip_def crossprod3_call_def split: list.splits)

lemma apply_each_ip:
  "keeps_ip fp \<Longrightarrow> apply_each fp v1 v2 (h, rt) = Done vo (h', rt') \<Longrightarrow> ip rt' = ip rt"
proof (induction v1 arbitrary: v2 h rt vo)
  case Nil
  then show ?case by simp
next
  case (Cons a v1)
  show ?case
  proof (cases v2)
    case Nil
    with Cons.prems show ?thesis by simp
  next
    case (Cons b v2')
    from Cons.prems(2) obtain u h1 rt1 r s vo1 where
      a: "fp (h, rt\<lparr>stack := b # a # stack rt\<rparr>) = Done u (h1, rt1)" and
      c: "apply_each fp v1 v2' (h1, rt1\<lparr>stack := s\<rparr>) = Done vo1 (h', rt')"
      unfolding Cons by (auto split: outcome.splits list.splits prod.splits)
    from Cons.IH[OF Cons.prems(1) c] have "ip rt' = ip rt1"
      by simp
    moreover from keeps_ipD[OF Cons.prems(1) a] have "ip rt1 = ip rt" by simp
    ultimately show ?thesis by simp
  qed
qed

lemma vector_op_apply_ip: "keeps_ip fp \<Longrightarrow> keeps_ip (vector_op_apply_call N fp)"
  by (auto simp: keeps_ip_def[of "vector_op_apply_call N fp"] vector_op_apply_call_def
      dest!: apply_each_ip split: list.splits option.splits outcome.splits)

lemma call_ip: "keeps_ip (call f)"
  by (rule function_i.induct[where ?P2.0 = "\<lambda>k. keeps_ip (call_kind k)"])
    (simp_all add: unary_function_ip binary_function_ip scalar_assign_ip vector_assign_ip
      dotprod3_ip crossprod3_ip vector_op_apply_ip)

lemma exec_ip: "exec i (h, rt) = Done u (h', rt') \<Longrightarrow> ip rt' = ip rt"
  by (cases i) (auto dest: keeps_ipD[OF call_ip])

text \<open>
  \<^verbatim>\<open>vm::run\<close>: \<^verbatim>\<open>prog\<close> is bound to \<^verbatim>\<open>*rte_.prog_p\<close>, \<^verbatim>\<open>end\<close> is its size, the
  instruction pointer is set to the entry point, and the loop
  \<^verbatim>\<open>while( rte_.ip != end ) { prog[ rte_.ip ]->exec( rte_ ); ++rte_.ip; }\<close> runs. An
  exception thrown by an instruction leaves the loop with the instruction pointer at that
  instruction.
\<close>

function run_loop :: "('v::{plus,minus,times}) instruction list \<Rightarrow> 'v effect" where
  "run_loop prog (h, rt) =
     (if ip rt = length prog then Done () (h, rt)
      else
        (case prog_at prog (ip rt) 0 of
           None \<Rightarrow> Undefined
         | Some i \<Rightarrow>
             (case exec i (h, rt) of
                Done _ (h', rt') \<Rightarrow> run_loop prog (h', rt'\<lparr>ip := ip rt' + 1\<rparr>)
              | Throw e m' \<Rightarrow> Throw e m'
              | Undefined \<Rightarrow> Undefined)))"
  by pat_completeness auto
termination
proof (relation "measure (\<lambda>(prog, h, rt). length prog - ip rt)", goal_cases)
  case 1
  show ?case by simp
next
  case (2 prog h rt i u m' h' rt')
  from 2(2) have "ip rt < length prog"
    by (simp add: prog_at_def split: if_splits)
  moreover from 2(3,4) have "ip rt' = ip rt"
    by (auto dest: exec_ip)
  ultimately show ?case by simp
qed

declare run_loop.simps [simp del]

definition run :: "nat \<Rightarrow> ('v::{plus,minus,times}) effect" where
  "run i m =
     (case m of (h, rt) \<Rightarrow>
        (case prog_p rt of
           None \<Rightarrow> Undefined
         | Some prog \<Rightarrow> run_loop prog (h, rt\<lparr>ip := i\<rparr>)))"

text \<open>
  The loop as the specification words it: set the instruction pointer to the entry point
  and, while it is less than the size of the program, execute the instruction it points to
  and then increment it.
\<close>

function run_loop_spec :: "('v::{plus,minus,times}) instruction list \<Rightarrow> 'v effect" where
  "run_loop_spec prog (h, rt) =
     (if ip rt < length prog then
        (case exec (prog ! ip rt) (h, rt) of
           Done _ (h', rt') \<Rightarrow> run_loop_spec prog (h', rt'\<lparr>ip := ip rt' + 1\<rparr>)
         | Throw e m' \<Rightarrow> Throw e m'
         | Undefined \<Rightarrow> Undefined)
      else Done () (h, rt))"
  by pat_completeness auto
termination
proof (relation "measure (\<lambda>(prog, h, rt). length prog - ip rt)", goal_cases)
  case 1
  show ?case by simp
next
  case (2 prog h rt u m' h' rt')
  from 2(2,3) have "ip rt' = ip rt"
    by (auto dest: exec_ip)
  with 2(1) show ?case by simp
qed

declare run_loop_spec.simps [simp del]

definition run_spec :: "nat \<Rightarrow> ('v::{plus,minus,times}) effect" where
  "run_spec i m =
     (case m of (h, rt) \<Rightarrow>
        (case prog_p rt of
           None \<Rightarrow> Undefined
         | Some prog \<Rightarrow> run_loop_spec prog (h, rt\<lparr>ip := i\<rparr>)))"


section \<open>The default run-time environment (def\_rte.h)\<close>

text \<open>The constructors of the function objects, each through the base constructor.\<close>

definition scalar_assign :: "'v function_i" where
  "scalar_assign = function_i ''='' 2 1 1 Scalar_assign"

definition vector_assign :: "nat \<Rightarrow> 'v function_i" where
  "vector_assign N = function_i ''='' (2 * of_nat N) (of_nat N) (of_nat N) (Vector_assign N)"

definition dotprod3 :: "'v function_i" where
  "dotprod3 = function_i ''*'' 6 1 3 Dotprod3"

definition crossprod3 :: "'v function_i" where
  "crossprod3 = function_i ''cross3'' 6 3 0 Crossprod3"

text \<open>
  \<^verbatim>\<open>vector_op_apply( FunPtr fp )\<close> throws unless the function it is given has one left
  and one right operand.
\<close>

definition vector_op_apply :: "nat \<Rightarrow> 'v function_i \<Rightarrow> exception + 'v function_i" where
  "vector_op_apply N fp =
     (if lvalues_in fp \<noteq> 1 \<or> rvalues_in fp \<noteq> 1
      then Inl (std_exception ''ONLY BINARY OPERATORS SUPPORTED'')
      else Inr (function_i (name fp) (2 * of_nat N) (of_nat N) (of_nat N)
                  (Vector_op_apply N fp)))"

text \<open>
  The functions of \<^verbatim>\<open><cmath>\<close> that the tables point to belong to the host and are a
  parameter of the tables. The value type of the tables is \<^verbatim>\<open>double\<close>; it is modelled by
  the real numbers.
\<close>

record cmath =
  fabs :: "real \<Rightarrow> real"
  acos :: "real \<Rightarrow> real"
  asin :: "real \<Rightarrow> real"
  atan :: "real \<Rightarrow> real"
  ceil :: "real \<Rightarrow> real"
  cos_c :: "real \<Rightarrow> real"
  cosh_c :: "real \<Rightarrow> real"
  exp_c :: "real \<Rightarrow> real"
  floor_c :: "real \<Rightarrow> real"
  log_c :: "real \<Rightarrow> real"
  log10 :: "real \<Rightarrow> real"
  sin_c :: "real \<Rightarrow> real"
  sinh_c :: "real \<Rightarrow> real"
  sqrt_c :: "real \<Rightarrow> real"
  tan_c :: "real \<Rightarrow> real"
  pow :: "real \<Rightarrow> real \<Rightarrow> real"
  fmod :: "real \<Rightarrow> real \<Rightarrow> real"
  atan2 :: "real \<Rightarrow> real \<Rightarrow> real"

definition neg :: "'v::uminus \<Rightarrow> 'v" where
  "neg v = - v"

definition inv_c :: "'v::{one,inverse} \<Rightarrow> 'v" where
  "inv_c v = 1 / v"

definition add :: "'v::plus \<Rightarrow> 'v \<Rightarrow> 'v" where
  "add v1 v2 = v1 + v2"

definition sub :: "'v::minus \<Rightarrow> 'v \<Rightarrow> 'v" where
  "sub v1 v2 = v1 - v2"

definition mul :: "'v::times \<Rightarrow> 'v \<Rightarrow> 'v" where
  "mul v1 v2 = v1 * v2"

definition div_c :: "'v::inverse \<Rightarrow> 'v \<Rightarrow> 'v" where
  "div_c v1 v2 = v1 / v2"

text \<open>Table rows: name, function pointer, number of parameters on the left side.\<close>

type_synonym 'v unary_function_t = "string \<times> ('v \<Rightarrow> 'v) \<times> cint"
type_synonym 'v binary_function_t = "string \<times> ('v \<Rightarrow> 'v \<Rightarrow> 'v) \<times> cint"
type_synonym 'v value_t = "string \<times> 'v"

definition unary_functions :: "cmath \<Rightarrow> real unary_function_t list" where
  "unary_functions cm =
     [(''abs'', fabs cm, 0), (''acos'', acos cm, 0), (''asin'', asin cm, 0),
      (''atan'', atan cm, 0), (''ceil'', ceil cm, 0), (''cos'', cos_c cm, 0),
      (''cosh'', cosh_c cm, 0), (''exp'', exp_c cm, 0), (''floor'', floor_c cm, 0),
      (''log'', log_c cm, 0), (''log10'', log10 cm, 0), (''sin'', sin_c cm, 0),
      (''sinh'', sinh_c cm, 0), (''sqrt'', sqrt_c cm, 0), (''tan'', tan_c cm, 0),
      (''inv'', inv_c, 0), (''-'', neg, 1)]"

definition binary_functions :: "cmath \<Rightarrow> real binary_function_t list" where
  "binary_functions cm =
     [(''^'', pow cm, 1), (''*'', mul, 1), (''/'', div_c, 1), (''+'', add, 1),
      (''-'', sub, 1), (''%'', fmod cm, 1),
      (''add'', add, 0), (''sub'', sub, 0), (''div'', div_c, 0), (''mul'', mul, 0),
      (''pow'', pow cm, 0), (''atan2'', atan2 cm, 0)]"

definition constants :: "real value_t list" where
  "constants =
     [(''e'', 2.71828182845904523536), (''log2e'', 1.44269504088896340736),
      (''Pi'', 3.14159265358979323846)]"

definition variables :: "real value_t list" where
  "variables = [(''x'', 0), (''y'', 0), (''z'', 0), (''w'', 0)]"

definition generate_unary_functions :: "'v unary_function_t list \<Rightarrow> 'v function_i list" where
  "generate_unary_functions functions =
     map (\<lambda>(n, f, left_params). function_i n 1 1 left_params (Unary_function f)) functions"

definition generate_binary_functions :: "'v binary_function_t list \<Rightarrow> 'v function_i list" where
  "generate_binary_functions functions =
     map (\<lambda>(n, f, left_params). function_i n 2 1 left_params (Binary_function f)) functions"

text \<open>\<^verbatim>\<open>new value< T >( n, v )\<close>: a fresh cell, at the next free address of the store.\<close>

definition new_value :: "'v heap \<Rightarrow> string \<Rightarrow> 'v \<Rightarrow> nat \<times> 'v heap" where
  "new_value h n v =
     (next_free h,
      h\<lparr>cells := (cells h)(next_free h := \<lparr>value_name = n, val = v\<rparr>),
        next_free := Suc (next_free h)\<rparr>)"

fun generate_variables :: "'v value_t list \<Rightarrow> 'v heap \<Rightarrow> nat list \<times> 'v heap" where
  "generate_variables [] h = ([], h)"
| "generate_variables ((n, v) # vars) h =
     (case new_value h n v of (a, h') \<Rightarrow>
        (case generate_variables vars h' of (as, h'') \<Rightarrow> (a # as, h'')))"

definition generate_constants :: "'v value_t list \<Rightarrow> 'v heap \<Rightarrow> nat list \<times> 'v heap" where
  "generate_constants = generate_variables"

text \<open>
  The loop of \<^verbatim>\<open>generate_def_functions\<close> that lifts every binary function with one left
  parameter to dimension 3.
\<close>

fun lift_binary_functions ::
  "'v binary_function_t list \<Rightarrow> 'v function_i list \<Rightarrow> exception + 'v function_i list" where
  "lift_binary_functions [] ft = Inr ft"
| "lift_binary_functions ((n, f, left_params) # bs) ft =
     (if left_params = 1 then
        (case vector_op_apply 3 (function_i n 2 1 left_params (Binary_function f)) of
           Inl e \<Rightarrow> Inl e
         | Inr g \<Rightarrow> lift_binary_functions bs (ft @ [g]))
      else lift_binary_functions bs ft)"

definition generate_def_functions :: "cmath \<Rightarrow> exception + real function_i list" where
  "generate_def_functions cm =
     (case lift_binary_functions (binary_functions cm)
             (generate_unary_functions (unary_functions cm)
              @ generate_binary_functions (binary_functions cm)
              @ [vector_assign 4, vector_assign 3, vector_assign 2, crossprod3, dotprod3]) of
        Inl e \<Rightarrow> Inl e
      | Inr ft \<Rightarrow> Inr (ft @ [scalar_assign]))"

definition generate_def_constants :: "real heap \<Rightarrow> nat list \<times> real heap" where
  "generate_def_constants = generate_constants constants"

definition generate_def_variables :: "real heap \<Rightarrow> nat list \<times> real heap" where
  "generate_def_variables = generate_variables variables"

text \<open>
  \<^verbatim>\<open>rte( functions, vars, constants )\<close> and \<^verbatim>\<open>generate_default_rte\<close>: no program, the
  instruction pointer at 0, both stacks empty.
\<close>

definition rte :: "'v function_i list \<Rightarrow> nat list \<Rightarrow> nat list \<Rightarrow> 'v rte" where
  "rte functions vars consts =
     \<lparr>fun_tab = functions, var_tab = vars, const_tab = consts, prog_p = None,
      stack = [], exe_stack = [], ip = 0\<rparr>"

definition generate_default_rte :: "cmath \<Rightarrow> real heap \<Rightarrow> exception + real machine" where
  "generate_default_rte cm h =
     (case generate_def_functions cm of
        Inl e \<Rightarrow> Inl e
      | Inr ft \<Rightarrow>
          (case generate_def_variables h of (vars, h') \<Rightarrow>
             (case generate_def_constants h' of (consts, h'') \<Rightarrow>
                Inr (h'', rte ft vars consts))))"

section \<open>Tokens (math\_parser.h) and the compiler (compiler.h)\<close>

datatype token_type = UNKNOWN | VALUE | NAME | FUNCTION | OPERATOR

text \<open>
  The token classes: the base class \<^verbatim>\<open>token\<close>, which the parser constructs with the
  default type \<^verbatim>\<open>UNKNOWN\<close> only, and its four subclasses.
\<close>

datatype token =
    token string
  | value_token string
  | name_token string
  | function_token string cint cint
  | operator_token string cint cint cint

fun str :: "token \<Rightarrow> string" where
  "str (token s) = s"
| "str (value_token s) = s"
| "str (name_token s) = s"
| "str (function_token s a out) = s"
| "str (operator_token s l r out) = s"

fun type_of :: "token \<Rightarrow> token_type" where
  "type_of (token s) = UNKNOWN"
| "type_of (value_token s) = VALUE"
| "type_of (name_token s) = NAME"
| "type_of (function_token s a out) = FUNCTION"
| "type_of (operator_token s l r out) = OPERATOR"

record compiler =
  create_variables :: bool
  count_args :: bool

text \<open>
  The private \<^verbatim>\<open>compile( TokenPtr t, rte< T >& rt )\<close>. A token pointer may be null
  (\<open>None\<close>). \<^verbatim>\<open>std::atof\<close> belongs to the host and is a parameter; \<^verbatim>\<open>T()\<close> is \<open>0\<close>.
\<close>

definition compile_token ::
  "(string \<Rightarrow> 'v) \<Rightarrow> compiler \<Rightarrow> token option \<Rightarrow> ('v::zero) machine
     \<Rightarrow> ('v instruction, 'v machine) outcome" where
  "compile_token atof c t m =
     (case t of
        None \<Rightarrow> Throw null_token m
      | Some (token s) \<Rightarrow> Throw (unknown_token s) m
      | Some (value_token s) \<Rightarrow> Done (load_val (atof s)) m
      | Some (function_token s args out) \<Rightarrow>
          (case function_p (snd m) s (if count_args c then args else - 1) 0 of
             Some f \<Rightarrow> Done (call_fun f) m
           | None \<Rightarrow> Throw (unknown_token s) m)
      | Some (operator_token s largs rargs out) \<Rightarrow>
          (case function_p (snd m) s rargs largs of
             Some f \<Rightarrow> Done (call_fun f) m
           | None \<Rightarrow> Throw (unknown_token s) m)
      | Some (name_token s) \<Rightarrow>
          (case (if \<not> count_args c then function_p (snd m) s (- 1) 0 else None) of
             Some f \<Rightarrow> Done (call_fun f) m
           | None \<Rightarrow>
               (case variable_p m s of
                  Some v \<Rightarrow> Done (load_var v) m
                | None \<Rightarrow>
                    (case constant_p m s of
                       Some k \<Rightarrow> Done (load_val (val (cells (fst m) k))) m
                     | None \<Rightarrow>
                         if create_variables c then
                           (case new_value (fst m) s 0 of (new_var, h') \<Rightarrow>
                              Done (load_var new_var)
                                (h', (snd m)\<lparr>var_tab := var_tab (snd m) @ [new_var]\<rparr>))
                         else Throw (unknown_token s) m))))"

text \<open>
  The public \<^verbatim>\<open>compile( tokens, rt )\<close>: one call of the private function per token, the
  instruction pushed at the back of the program.
\<close>

fun compile_loop ::
  "(string \<Rightarrow> 'v) \<Rightarrow> compiler \<Rightarrow> token option list \<Rightarrow> 'v instruction list \<Rightarrow> ('v::zero) machine
     \<Rightarrow> ('v instruction list, 'v machine) outcome" where
  "compile_loop atof c [] program m = Done program m"
| "compile_loop atof c (t # ts) program m =
     (case compile_token atof c t m of
        Done inst m' \<Rightarrow> compile_loop atof c ts (program @ [inst]) m'
      | Throw e m' \<Rightarrow> Throw e m'
      | Undefined \<Rightarrow> Undefined)"

definition compile ::
  "(string \<Rightarrow> 'v) \<Rightarrow> compiler \<Rightarrow> token option list \<Rightarrow> ('v::zero) machine
     \<Rightarrow> ('v instruction list, 'v machine) outcome" where
  "compile atof c tokens m = compile_loop atof c tokens [] m"


section \<open>Text utilities (text\_utility.h)\<close>

definition isdigit :: "char \<Rightarrow> bool" where
  "isdigit ch = (48 \<le> (of_char ch :: nat) \<and> (of_char ch :: nat) \<le> 57)"

definition islower :: "char \<Rightarrow> bool" where
  "islower ch = (97 \<le> (of_char ch :: nat) \<and> (of_char ch :: nat) \<le> 122)"

definition isupper :: "char \<Rightarrow> bool" where
  "isupper ch = (65 \<le> (of_char ch :: nat) \<and> (of_char ch :: nat) \<le> 90)"

definition isspace :: "char \<Rightarrow> bool" where
  "isspace ch = ((of_char ch :: nat) = 32 \<or> (9 \<le> (of_char ch :: nat) \<and> (of_char ch :: nat) \<le> 13))"

text \<open>\<^verbatim>\<open>toupper\<close> of the C library, from character code to character code.\<close>

definition toupper :: "char \<Rightarrow> nat" where
  "toupper ch = (if islower ch then (of_char ch :: nat) - 32 else of_char ch)"

text \<open>The characters of \<open>s\<close> between two iterators, given as positions.\<close>

definition between :: "string \<Rightarrow> nat \<Rightarrow> nat \<Rightarrow> string" where
  "between s b e = take (e - b) (drop b s)"

text \<open>
  \<^verbatim>\<open>find_if\<close> with a predicate that has a state: the number of elements before the first
  one for which the predicate holds. The predicate is passed by value, so every search
  starts from the state the predicate object was constructed with.
\<close>

primrec find_if :: "('st \<Rightarrow> 'a \<Rightarrow> bool \<times> 'st) \<Rightarrow> 'st \<Rightarrow> 'a list \<Rightarrow> nat" where
  "find_if p st [] = 0"
| "find_if p st (x # xs) =
     (case p st x of (True, st') \<Rightarrow> 0 | (False, st') \<Rightarrow> Suc (find_if p st' xs))"

definition not1 :: "('st \<Rightarrow> 'a \<Rightarrow> bool \<times> 'st) \<Rightarrow> 'st \<Rightarrow> 'a \<Rightarrow> bool \<times> 'st" where
  "not1 p st x = (case p st x of (r, st') \<Rightarrow> (\<not> r, st'))"

definition search_range ::
  "('st \<Rightarrow> char \<Rightarrow> bool \<times> 'st) \<Rightarrow> 'st \<Rightarrow> string \<Rightarrow> nat \<Rightarrow> nat \<Rightarrow> nat \<times> nat" where
  "search_range p init s begin end =
     (let b = begin + find_if p init (between s begin end) in
      if b = end then (end, end)
      else (b, b + find_if (not1 p) init (between s b end)))"

record match_number_state =
  dot_found :: bool
  E_pos :: int
  cnt :: int

definition match_number_init :: match_number_state where
  "match_number_init = \<lparr>dot_found = False, E_pos = - 1, cnt = - 1\<rparr>"

definition match_number :: "match_number_state \<Rightarrow> char \<Rightarrow> bool \<times> match_number_state" where
  "match_number st0 ch =
     (let st = st0\<lparr>cnt := cnt st0 + 1\<rparr> in
      if isdigit ch then (True, st)
      else if ch = CHR ''.'' then
        (if E_pos st \<ge> 0 then (False, match_number_init)
         else if \<not> dot_found st then (True, st\<lparr>dot_found := True\<rparr>)
         else (False, match_number_init))
      else if toupper ch = of_char CHR ''E'' \<and> cnt st = 0 then (False, match_number_init)
      else if toupper ch = of_char CHR ''E'' \<and> E_pos st < 0 then (True, st\<lparr>E_pos := cnt st\<rparr>)
      else if (ch = CHR ''+'' \<or> ch = CHR ''-'') \<and> E_pos st \<ge> 0 \<and> E_pos st = cnt st - 1
        then (True, st)
      else (False, match_number_init))"

record match_name_state =
  name_cnt :: int
  n_cnt :: int
  tmp_buf :: "char \<times> char"
  number_matcher :: match_number_state

definition match_name_init :: match_name_state where
  "match_name_init =
     \<lparr>name_cnt = - 1, n_cnt = - 1, tmp_buf = (CHR '' '', CHR '' ''),
      number_matcher = match_number_init\<rparr>"

text \<open>
  The first test of \<^verbatim>\<open>match_name::operator()\<close>: on an \<^verbatim>\<open>E\<close> in first position the
  number matcher held by the name matcher is applied to the two buffered characters, the
  second one only when the first is rejected.
\<close>

definition part_of_number :: "match_name_state \<Rightarrow> char \<Rightarrow> bool \<times> match_name_state" where
  "part_of_number st ch =
     (if name_cnt st = 0 \<and> toupper ch = of_char CHR ''E'' then
        (case match_number (number_matcher st) (fst (tmp_buf st)) of
           (True, m1) \<Rightarrow> (True, st\<lparr>number_matcher := m1\<rparr>)
         | (False, m1) \<Rightarrow>
             (case match_number m1 (snd (tmp_buf st)) of
                (r, m2) \<Rightarrow> (r, st\<lparr>number_matcher := m2\<rparr>)))
      else (False, st))"

definition match_name :: "match_name_state \<Rightarrow> char \<Rightarrow> bool \<times> match_name_state" where
  "match_name st0 ch =
     (case part_of_number
             (st0\<lparr>name_cnt := name_cnt st0 + 1, n_cnt := n_cnt st0 + 1,
                  tmp_buf := (if (n_cnt st0 + 1) mod 2 = 0 then (ch, snd (tmp_buf st0))
                              else (fst (tmp_buf st0), ch))\<rparr>) ch of
        (True, st) \<Rightarrow> (False, st\<lparr>name_cnt := - 1\<rparr>)
      | (False, st) \<Rightarrow>
          if islower ch then (True, st)
          else if isupper ch then (True, st)
          else if ch = CHR ''_'' then (True, st)
          else if isdigit ch \<and> name_cnt st > 0 then (True, st)
          else (False, st\<lparr>name_cnt := - 1\<rparr>))"

lemma find_if_le: "find_if p st xs \<le> length xs"
  by (induction xs arbitrary: st) (auto split: prod.splits bool.splits)

lemma find_if_stops:
  assumes "\<forall>st c st'. I st \<and> p st c = (False, st') \<longrightarrow> I st'"
    and "I st" and "find_if p st xs < length xs"
  shows "\<exists>st'. I st' \<and> fst (p st' (xs ! find_if p st xs))"
  using assms(2,3)
proof (induction xs arbitrary: st)
  case Nil
  then show ?case by simp
next
  case (Cons x xs)
  obtain r st1 where p: "p st x = (r, st1)" by (cases "p st x")
  show ?case
  proof (cases r)
    case True
    with p Cons.prems show ?thesis by auto
  next
    case False
    with p Cons.prems assms(1) have "I st1" "find_if p st1 xs < length xs"
      by auto
    from Cons.IH[OF this] p False show ?thesis by simp
  qed
qed

lemma find_if_not1_pos:
  "fst (p st x) \<Longrightarrow> 0 < find_if (not1 p) st (x # xs)"
  by (auto simp: not1_def split: prod.splits)

lemma between_Cons:
  assumes "f < e" and "e \<le> length s"
  shows "between s f e = s ! f # between s (Suc f) e"
proof -
  from assms have "drop f s = s ! f # drop (Suc f) s"
    by (simp add: Cons_nth_drop_Suc)
  moreover from assms have "e - f = Suc (e - Suc f)"
    by arith
  ultimately show ?thesis
    by (simp add: between_def)
qed

lemma between_nth:
  assumes "n < e - b" and "e \<le> length s"
  shows "between s b e ! n = s ! (b + n)"
  using assms by (simp add: between_def)

lemma search_range_bounds:
  assumes "\<forall>st c st'. I st \<and> p st c = (False, st') \<longrightarrow> I st'"
    and "I init"
    and "\<forall>st c. I st \<and> fst (p st c) \<longrightarrow> fst (p init c)"
    and "b \<le> e" and "e \<le> length s"
    and "search_range p init s b e = (f, t)"
  shows "(f = e \<and> t = e) \<or> (b \<le> f \<and> f < t \<and> t \<le> e)"
proof -
  define n where "n = find_if p init (between s b e)"
  have len: "length (between s b e) = e - b"
    using assms(4,5) by (simp add: between_def)
  have n: "n \<le> e - b"
    using find_if_le[of p init "between s b e"] len by (simp add: n_def)
  show ?thesis
  proof (cases "b + n = e")
    case True
    with assms(6) show ?thesis
      by (simp add: search_range_def Let_def n_def)
  next
    case False
    with n assms(4) have lt: "n < e - b" by arith
    then have lt': "find_if p init (between s b e) < length (between s b e)"
      using len by (simp add: n_def)
    from find_if_stops[OF assms(1) assms(2) lt']
    obtain st' where st': "I st'" "fst (p st' (between s b e ! n))"
      unfolding n_def by blast
    with assms(3) have "fst (p init (between s b e ! n))" by blast
    then have pi: "fst (p init (s ! (b + n)))"
      using between_nth[OF lt assms(5)] by simp
    have f: "f = b + n"
      using assms(6) False by (auto simp: search_range_def Let_def n_def)
    have t: "t = f + find_if (not1 p) init (between s f e)"
      using assms(6) False unfolding f by (auto simp: search_range_def Let_def n_def)
    have fe: "f < e" using f lt by arith
    have bc: "between s f e = s ! f # between s (Suc f) e"
      using fe assms(5) by (rule between_Cons)
    from pi have "0 < find_if (not1 p) init (s ! f # between s (Suc f) e)"
      unfolding f by (rule find_if_not1_pos)
    then have pos: "0 < find_if (not1 p) init (between s f e)"
      by (simp only: bc)
    have "length (between s f e) = e - f"
      using fe assms(5) by (simp add: between_def)
    with find_if_le[of "not1 p" init "between s f e"]
    have "find_if (not1 p) init (between s f e) \<le> e - f" by simp
    with pos t f fe show ?thesis by arith
  qed
qed

lemma match_number_False: "match_number st c = (False, st') \<Longrightarrow> st' = match_number_init"
  by (auto simp: match_number_def Let_def split: if_splits)

lemma search_range_number:
  assumes "b \<le> e" and "e \<le> length s"
    and "search_range match_number match_number_init s b e = (f, t)"
  shows "(f = e \<and> t = e) \<or> (b \<le> f \<and> f < t \<and> t \<le> e)"
proof (rule search_range_bounds[where I = "\<lambda>st. st = match_number_init", OF _ _ _ assms])
  show "\<forall>st c st'. st = match_number_init \<and> match_number st c = (False, st')
      \<longrightarrow> st' = match_number_init"
    by (auto dest: match_number_False)
qed auto

lemma toupper_E_not_digit:
  assumes "toupper c = of_char CHR ''E''"
  shows "\<not> isdigit c \<and> c \<noteq> CHR ''.''"
proof -
  define n where "n = (of_char c :: nat)"
  from assms have "(if 97 \<le> n \<and> n \<le> 122 then n - 32 else n) = of_char CHR ''E''"
    unfolding toupper_def islower_def n_def .
  then have "(if 97 \<le> n \<and> n \<le> 122 then n - 32 else n) = 69"
    by simp
  then have "n = 69 \<or> n = 101"
    by (auto split: if_splits)
  then have "\<not> (48 \<le> n \<and> n \<le> 57)" and "n \<noteq> 46"
    by auto
  moreover have "c = CHR ''.'' \<Longrightarrow> n = 46"
    by (simp add: n_def)
  ultimately show ?thesis
    by (auto simp: isdigit_def n_def)
qed

lemma match_number_init_E:
  "toupper c = of_char CHR ''E'' \<Longrightarrow> match_number match_number_init c = (False, match_number_init)"
  by (frule toupper_E_not_digit) (simp add: match_number_def match_number_init_def)

lemma match_number_init_blank:
  "match_number match_number_init CHR '' '' = (False, match_number_init)"
  by (simp add: match_number_def match_number_init_def isdigit_def toupper_def islower_def)

lemma part_of_number_cnt: "part_of_number st c = (r, st') \<Longrightarrow> name_cnt st' = name_cnt st"
  by (auto simp: part_of_number_def split: if_splits prod.splits bool.splits)

lemma match_name_False: "match_name st c = (False, st') \<Longrightarrow> name_cnt st' = - 1"
  unfolding match_name_def
  by (auto split: prod.splits bool.splits if_splits)

lemma match_name_True_letter:
  assumes "name_cnt st = - 1" and "fst (match_name st c)"
  shows "islower c \<or> isupper c \<or> c = CHR ''_''"
proof -
  let ?st = "st\<lparr>name_cnt := name_cnt st + 1, n_cnt := n_cnt st + 1,
                  tmp_buf := (if (n_cnt st + 1) mod 2 = 0 then (c, snd (tmp_buf st))
                              else (fst (tmp_buf st), c))\<rparr>"
  obtain r st1 where p: "part_of_number ?st c = (r, st1)"
    by (cases "part_of_number ?st c")
  from part_of_number_cnt[OF p] assms(1) have "name_cnt st1 = 0" by simp
  with assms(2) p show ?thesis
    by (cases r) (simp_all add: match_name_def split: if_splits)
qed

lemma part_of_number_init:
  "part_of_number
     (match_name_init\<lparr>name_cnt := 0, n_cnt := 0, tmp_buf := (c, CHR '' '')\<rparr>) c
   = (False, match_name_init\<lparr>name_cnt := 0, n_cnt := 0, tmp_buf := (c, CHR '' '')\<rparr>)"
proof (cases "toupper c = of_char CHR ''E''")
  case True
  then show ?thesis
    by (simp add: part_of_number_def match_name_init_def match_number_init_E
        match_number_init_blank)
next
  case False
  then show ?thesis
    by (simp add: part_of_number_def)
qed

lemma match_name_init_letter:
  assumes "islower c \<or> isupper c \<or> c = CHR ''_''"
  shows "fst (match_name match_name_init c)"
proof -
  have "match_name_init\<lparr>name_cnt := name_cnt match_name_init + 1,
          n_cnt := n_cnt match_name_init + 1,
          tmp_buf := (if (n_cnt match_name_init + 1) mod 2 = 0
                      then (c, snd (tmp_buf match_name_init))
                      else (fst (tmp_buf match_name_init), c))\<rparr>
        = match_name_init\<lparr>name_cnt := 0, n_cnt := 0, tmp_buf := (c, CHR '' '')\<rparr>"
    by (simp add: match_name_init_def)
  with assms show ?thesis
    unfolding match_name_def by (auto simp: part_of_number_init)
qed

lemma search_range_name:
  assumes "b \<le> e" and "e \<le> length s"
    and "search_range match_name match_name_init s b e = (f, t)"
  shows "(f = e \<and> t = e) \<or> (b \<le> f \<and> f < t \<and> t \<le> e)"
proof (rule search_range_bounds[where I = "\<lambda>st. name_cnt st = - 1", OF _ _ _ assms])
  show "\<forall>st c st'. name_cnt st = - 1 \<and> match_name st c = (False, st') \<longrightarrow> name_cnt st' = - 1"
    by (auto dest: match_name_False)
  show "name_cnt match_name_init = - 1"
    by (simp add: match_name_init_def)
  show "\<forall>st c. name_cnt st = - 1 \<and> fst (match_name st c) \<longrightarrow> fst (match_name match_name_init c)"
    by (blast intro: match_name_init_letter dest: match_name_True_letter)
qed

section \<open>The tokeniser (math\_parser.h)\<close>

text \<open>\<^verbatim>\<open>class operator_type\<close>, with its fields \<^verbatim>\<open>name_\<close>, \<^verbatim>\<open>operands_\<close>, \<^verbatim>\<open>largs_\<close>,
  \<^verbatim>\<open>rargs_\<close>, \<^verbatim>\<open>outvals_\<close> and \<^verbatim>\<open>swap_\<close>.\<close>

record operator_type =
  op_name :: string
  op_operands :: cint
  op_largs :: cint
  op_rargs :: cint
  op_outvals :: cint
  op_swap :: bool

text \<open>Its constructor, with every argument given.\<close>

definition operator_type ::
  "string \<Rightarrow> cint \<Rightarrow> cint \<Rightarrow> cint \<Rightarrow> cint \<Rightarrow> bool \<Rightarrow> operator_type" where
  "operator_type n ops l r out sw =
     \<lparr>op_name = n, op_operands = ops, op_largs = l, op_rargs = r, op_outvals = out,
      op_swap = sw\<rparr>"

text \<open>
  \<^verbatim>\<open>find_if( operators_.begin(), operators_.end(), findop( fname ) ) != operators_.end()\<close>
\<close>

definition findop :: "operator_type list \<Rightarrow> string \<Rightarrow> bool" where
  "findop ops fname = list_ex (\<lambda>op. op_name op = fname) ops"

lemma search_range_name_decr:
  assumes "(x, y) = search_range match_name match_name_init s b e"
    and "x \<noteq> e" and "\<not> e < b" and "\<not> length s < e"
  shows "e - y < e - b \<and> b < e"
proof -
  from assms(3,4) have "b \<le> e" "e \<le> length s" by simp_all
  from search_range_name[OF this assms(1)[symmetric]] assms(2) show ?thesis by auto
qed

lemma search_range_number_decr:
  assumes "(x, y) = search_range match_number match_number_init s b e"
    and "x \<noteq> e" and "\<not> e < b" and "\<not> length s < e"
  shows "e - y < e - b \<and> b < e"
proof -
  from assms(3,4) have "b \<le> e" "e \<le> length s" by simp_all
  from search_range_number[OF this assms(1)[symmetric]] assms(2) show ?thesis by auto
qed

text \<open>
  \<^verbatim>\<open>search_name\<close>. Iterators are positions in \<open>s\<close>; in every call of the source they form
  a range, \<open>b \<le> e \<le> length s\<close>, and nothing is found outside one.
\<close>

function search_name :: "operator_type list \<Rightarrow> string \<Rightarrow> nat \<Rightarrow> nat \<Rightarrow> nat \<times> nat" where
  "search_name ops s b e =
     (if e < b \<or> length s < e then (e, e)
      else
        (case search_range match_name match_name_init s b e of (first, second) \<Rightarrow>
           if first = e then (first, second)
           else if second = e \<or> s ! second \<noteq> CHR ''('' then
             (if findop ops (between s first second) then search_name ops s second e
              else (first, second - 1))
           else search_name ops s second e))"
  by pat_completeness auto
termination
  by (relation "measure (\<lambda>(ops, s, b, e). e - b)")
    (auto dest: search_range_name_decr)

declare search_name.simps [simp del]

text \<open>
  \<^verbatim>\<open>search_number\<close>. The third argument is the beginning of the expression, position 0 in
  every call of the source.
\<close>

function search_number ::
  "operator_type list \<Rightarrow> string \<Rightarrow> nat \<Rightarrow> nat \<Rightarrow> nat \<Rightarrow> exception + nat \<times> nat" where
  "search_number ops s b e start =
     (if e < b \<or> length s < e then Inr (e, e)
      else if b = e then Inr (e, e)
      else
        (case search_range match_number match_number_init s b e of (first, second) \<Rightarrow>
           if first = e then Inr (first, second)
           else
             (case search_name ops s second e of (rn_first, rn_second) \<Rightarrow>
                if rn_first = second \<and> rn_first \<noteq> e
                then Inl (invalid_name (between s first (rn_second + 1)))
                else if first = start then Inr (first, second - 1)
                else if fst (search_range match_name match_name_init s (first - 1) second) \<noteq> second
                then search_number ops s second e start
                else if first \<noteq> second \<and> \<not> isdigit (s ! (second - 1))
                then Inr (search_range match_number match_number_init s second e)
                else if isdigit (s ! (second - 1)) \<or> s ! (second - 1) = CHR ''.'' then
                  (if first \<noteq> start \<and> fst (search_name ops s (first - 1) e) < second
                   then search_number ops s second e start
                   else Inr (first, second - 1))
                else search_number ops s second e start)))"
  by pat_completeness auto
termination
  by (relation "measure (\<lambda>(ops, s, b, e, start). e - b)")
    (auto dest: search_range_number_decr)

declare search_number.simps [simp del]


subsection \<open>Input streams of the standard library\<close>

text \<open>
  An input string stream: the characters not yet read and the two state bits the code
  looks at. \<^verbatim>\<open>while( is )\<close> and \<^verbatim>\<open>if( is )\<close> test that \<open>failbit\<close> is clear,
  \<^verbatim>\<open>is.good()\<close> that both bits are clear.
\<close>

record istream =
  buf :: string
  eofbit :: bool
  failbit :: bool

definition istringstream :: "string \<Rightarrow> istream" where
  "istringstream s = \<lparr>buf = s, eofbit = False, failbit = False\<rparr>"

definition good :: "istream \<Rightarrow> bool" where
  "good strm = (\<not> eofbit strm \<and> \<not> failbit strm)"

text \<open>A C string ends at the first null character.\<close>

definition c_str :: "string \<Rightarrow> string" where
  "c_str s = takeWhile (\<lambda>c. c \<noteq> CHR 0x00) s"

text \<open>
  \<^verbatim>\<open>is >> s\<close> for a string: on a stream that is not good the extraction fails and \<open>s\<close>
  keeps its value; otherwise white space is skipped and, unless the end is reached, \<open>s\<close>
  becomes the characters up to the next white space.
\<close>

definition get_word :: "istream \<Rightarrow> string \<Rightarrow> istream \<times> string" where
  "get_word strm s =
     (if \<not> good strm then (strm\<lparr>failbit := True\<rparr>, s)
      else
        (let rest = dropWhile isspace (buf strm) in
         if rest = [] then (strm\<lparr>buf := [], eofbit := True, failbit := True\<rparr>, s)
         else
           (let rest' = dropWhile (\<lambda>c. \<not> isspace c) rest in
            (strm\<lparr>buf := rest', eofbit := (rest' = [])\<rparr>, takeWhile (\<lambda>c. \<not> isspace c) rest))))"

text \<open>
  \<^verbatim>\<open>is >> v\<close> for an \<^verbatim>\<open>int\<close>: white space, an optional sign and decimal digits; the
  extraction fails when there is no digit or the number is not an \<^verbatim>\<open>int\<close>.
\<close>

definition get_int :: "istream \<Rightarrow> istream \<times> cint option" where
  "get_int strm =
     (if \<not> good strm then (strm\<lparr>failbit := True\<rparr>, None)
      else
        (let rest = dropWhile isspace (buf strm) in
         if rest = [] then (strm\<lparr>buf := [], eofbit := True, failbit := True\<rparr>, None)
         else
           (let negative = (hd rest = CHR ''-'');
                r1 = (if hd rest = CHR ''-'' \<or> hd rest = CHR ''+'' then tl rest else rest);
                digits = takeWhile isdigit r1;
                r2 = dropWhile isdigit r1;
                n = foldl (\<lambda>a c. 10 * a + ((of_char c :: int) - 48)) 0 digits;
                v = (if negative then - n else n)
            in if digits = [] \<or> v < - (2 ^ 31) \<or> 2 ^ 31 - 1 < v
               then (strm\<lparr>buf := r2, eofbit := (r2 = []), failbit := True\<rparr>, None)
               else (strm\<lparr>buf := r2, eofbit := (r2 = [])\<rparr>, Some (word_of_int v)))))"

definition unread :: "istream \<Rightarrow> nat" where
  "unread strm = (if failbit strm then 0 else Suc (length (buf strm)))"

lemma get_int_None: "get_int strm = (strm', None) \<Longrightarrow> failbit strm'"
  by (auto simp: get_int_def Let_def split: if_splits)

lemma length_dropWhile_less: "takeWhile P xs \<noteq> [] \<Longrightarrow> length (dropWhile P xs) < length xs"
  by (induction xs) (auto simp: less_Suc_eq_le length_dropWhile_le split: if_splits)

lemma get_int_Some:
  assumes "get_int strm = (strm', Some v)"
  shows "\<not> failbit strm' \<and> length (buf strm') < length (buf strm)"
proof -
  define rest where "rest = dropWhile isspace (buf strm)"
  define r1 where "r1 = (if hd rest = CHR ''-'' \<or> hd rest = CHR ''+'' then tl rest else rest)"
  from assms have g: "good strm" and ne: "rest \<noteq> []" and d: "takeWhile isdigit r1 \<noteq> []"
    and b: "buf strm' = dropWhile isdigit r1" and f: "\<not> failbit strm'"
    by (auto simp: get_int_def Let_def rest_def r1_def good_def split: if_splits)
  from d have "length (dropWhile isdigit r1) < length r1"
    by (rule length_dropWhile_less)
  moreover have "length r1 \<le> length rest"
    by (simp add: r1_def)
  moreover have "length rest \<le> length (buf strm)"
    by (simp add: rest_def length_dropWhile_le)
  ultimately show ?thesis using b f by simp
qed

lemma get_int_unread:
  assumes "(strm', r) = get_int strm" and "\<not> failbit strm"
  shows "unread strm' < unread strm"
proof (cases r)
  case None
  with assms(1) have "failbit strm'" by (auto dest: get_int_None[OF sym])
  with assms(2) show ?thesis by (simp add: unread_def)
next
  case (Some v)
  with assms(1) have "\<not> failbit strm' \<and> length (buf strm') < length (buf strm)"
    by (auto dest: get_int_Some[OF sym])
  with assms(2) show ?thesis by (simp add: unread_def)
qed

text \<open>\<^verbatim>\<open>while( is ) { is >> v; if( is ) values.push_back( v ); }\<close>\<close>

function read_ints :: "istream \<Rightarrow> cint list \<Rightarrow> cint list" where
  "read_ints strm values =
     (if failbit strm then values
      else
        (case get_int strm of
           (strm', Some v) \<Rightarrow> read_ints strm' (values @ [v])
         | (strm', None) \<Rightarrow> read_ints strm' values))"
  by pat_completeness auto
termination
  by (relation "measure (\<lambda>(strm, values). unread strm)")
    (auto intro: get_int_unread)

declare read_ints.simps [simp del]

subsection \<open>Tokens from words\<close>

text \<open>\<^verbatim>\<open>s.find( c, pos )\<close>, with \<open>None\<close> for \<^verbatim>\<open>npos\<close>.\<close>

definition str_find :: "string \<Rightarrow> char \<Rightarrow> nat \<Rightarrow> nat option" where
  "str_find s c pos =
     (if c \<in> set (drop pos s) then Some (pos + length (takeWhile (\<lambda>x. x \<noteq> c) (drop pos s)))
      else None)"

text \<open>
  \<^verbatim>\<open>create_token\<close>. The result is a pointer to a new token, or the null pointer (\<open>None\<close>)
  that the \<^verbatim>\<open>default\<close> branch of the \<^verbatim>\<open>switch\<close> on the number of values returns; the
  searches may throw \<^verbatim>\<open>invalid_name\<close>.
\<close>

definition create_token :: "operator_type list \<Rightarrow> bool \<Rightarrow> string \<Rightarrow> exception + token option" where
  "create_token ops counting s =
     (case
        (if counting then
           (case str_find s CHR ''['' 0 of
              None \<Rightarrow> None
            | Some i \<Rightarrow>
                Some
                  (case str_find s CHR '']'' i of
                     None \<Rightarrow> Some (token s)
                   | Some c \<Rightarrow>
                       (case read_ints (istringstream (between s (i + 1) c)) [] of
                          [v0] \<Rightarrow> Some (function_token (take i s) v0 (- 1))
                        | [v0, v1] \<Rightarrow> Some (function_token (take i s) v0 v1)
                        | [v0, v1, v2] \<Rightarrow> Some (operator_token (take i s) v0 v1 v2)
                        | _ \<Rightarrow> None)))
         else if findop ops s then Some (Some (operator_token s (- 1) (- 1) (- 1)))
         else None) of
        Some t \<Rightarrow> Inr t
      | None \<Rightarrow>
          (case search_number ops s 0 (length s) 0 of
             Inl e \<Rightarrow> Inl e
           | Inr r \<Rightarrow>
               if fst r \<noteq> length s then Inr (Some (value_token s))
               else if fst (search_name ops s 0 (length s)) \<noteq> length s
               then Inr (Some (name_token s))
               else if \<not> counting \<and> findop ops s
               then Inr (Some (operator_token s (- 1) (- 1) (- 1)))
               else Inr (Some (token s))))"

text \<open>
  The inner loop of \<^verbatim>\<open>create_tokens\<close>, which collects the words of an annotation up to
  the one that ends with the closing bracket:
  \<^verbatim>\<open>while( is && s2[ s2.size() - 1 ] != CLOSE_ARG_PAR ) { is >> s2; if( is.good() ) sv.push_back( s2 ); }\<close>
\<close>

lemma takeWhile_not_space:
  assumes "dropWhile isspace xs \<noteq> []"
  shows "takeWhile (\<lambda>c. \<not> isspace c) (dropWhile isspace xs) \<noteq> []"
proof -
  from assms have "\<not> isspace (hd (dropWhile isspace xs))"
    by (rule hd_dropWhile)
  with assms show ?thesis
    by (cases "dropWhile isspace xs") auto
qed

lemma get_word_unread:
  assumes "(strm', s') = get_word strm s" and "\<not> failbit strm"
  shows "unread strm' < unread strm"
proof -
  define rest where "rest = dropWhile isspace (buf strm)"
  have r: "length rest \<le> length (buf strm)"
    by (simp add: rest_def length_dropWhile_le)
  have "rest \<noteq> [] \<Longrightarrow> length (dropWhile (\<lambda>c. \<not> isspace c) rest) < length rest"
    unfolding rest_def by (intro length_dropWhile_less takeWhile_not_space)
  with assms r show ?thesis
    by (auto simp: get_word_def unread_def Let_def good_def rest_def[symmetric] split: if_splits)
qed

function join_words :: "istream \<Rightarrow> string \<Rightarrow> string list \<Rightarrow> istream \<times> string list" where
  "join_words strm s2 sv =
     (if \<not> failbit strm \<and> last s2 \<noteq> CHR '']'' then
        (case get_word strm s2 of
           (strm', s2') \<Rightarrow> join_words strm' s2' (if good strm' then sv @ [s2'] else sv))
      else (strm, sv))"
  by pat_completeness auto
termination
  by (relation "measure (\<lambda>(strm, s2, sv). unread strm)")
    (auto intro: get_word_unread)

declare join_words.simps [simp del]


lemma join_words_unread: "unread (fst (join_words strm s2 sv)) \<le> unread strm"
proof (induction strm s2 sv rule: join_words.induct)
  case (1 strm s2 sv)
  show ?case
  proof (cases "\<not> failbit strm \<and> last s2 \<noteq> CHR '']''")
    case False
    then show ?thesis by (auto simp: join_words.simps[of strm])
  next
    case True
    obtain strm' s2' where g: "get_word strm s2 = (strm', s2')"
      by (cases "get_word strm s2")
    from "1.IH"[OF True g[symmetric]]
    have "unread (fst (join_words strm' s2' (if good strm' then sv @ [s2'] else sv))) \<le> unread strm'" .
    moreover from get_word_unread[OF g[symmetric]] True have "unread strm' < unread strm" by simp
    ultimately show ?thesis using True g by (simp add: join_words.simps[of strm])
  qed
qed

text \<open>
  The loop of \<^verbatim>\<open>create_tokens\<close>. \<open>tokens\<close> is the member \<^verbatim>\<open>tokens_\<close>. With \<^verbatim>\<open>debug_\<close> on,
  the type of the token is read through the pointer, null or not.
\<close>

function create_tokens_loop ::
  "operator_type list \<Rightarrow> bool \<Rightarrow> bool \<Rightarrow> istream \<Rightarrow> token list \<Rightarrow> (unit, token list) outcome" where
  "create_tokens_loop ops counting dbg strm tokens =
     (if failbit strm then Done () tokens
      else
        (case get_word strm [] of (strm1, s) \<Rightarrow>
           if s = [] then Done () tokens
           else
             (case (if counting \<and> CHR ''['' \<in> set s \<and> last s \<noteq> CHR '']'' then
                      (case join_words strm1 '' '' [] of
                         (strm2, sv) \<Rightarrow> (strm2, foldl (\<lambda>a w. a @ CHR '' '' # w) s sv))
                    else (strm1, s)) of
                (strm2, s') \<Rightarrow>
                  (case create_token ops counting s' of
                     Inl e \<Rightarrow> Throw e tokens
                   | Inr None \<Rightarrow>
                       if dbg then Undefined
                       else create_tokens_loop ops counting dbg strm2 tokens
                   | Inr (Some t) \<Rightarrow> create_tokens_loop ops counting dbg strm2 (tokens @ [t])))))"
  by pat_completeness auto
termination
proof (relation "measure (\<lambda>(ops, counting, dbg, strm, tokens). unread strm)", goal_cases)
  case 1
  show ?case by simp
next
  case (2 ops counting dbg strm tokens x y xa ya b)
  from get_word_unread[OF 2(2) 2(1)] have a: "unread x < unread strm" .
  from 2(4) have "unread xa \<le> unread x"
    using join_words_unread[of x "'' ''" "[]"] by (auto split: if_splits prod.splits)
  with a show ?case by simp
next
  case (3 ops counting dbg strm tokens x y xa ya b x2)
  from get_word_unread[OF 3(2) 3(1)] have a: "unread x < unread strm" .
  from 3(4) have "unread xa \<le> unread x"
    using join_words_unread[of x "'' ''" "[]"] by (auto split: if_splits prod.splits)
  with a show ?case by simp
qed

declare create_tokens_loop.simps [simp del]

definition create_tokens ::
  "operator_type list \<Rightarrow> bool \<Rightarrow> bool \<Rightarrow> string \<Rightarrow> token list \<Rightarrow> (unit, token list) outcome" where
  "create_tokens ops counting dbg expr tokens =
     create_tokens_loop ops counting dbg (istringstream (c_str expr)) tokens"


section \<open>Concrete machines for the examples\<close>

text \<open>A store with no cell allocated yet.\<close>

definition heap0 :: "real heap" where
  "heap0 = \<lparr>cells = (\<lambda>a. \<lparr>value_name = [], val = 0\<rparr>), next_free = 0\<rparr>"

text \<open>
  An instance of the host's mathematical functions on the real numbers, and the host's
  \<^verbatim>\<open>atof\<close> on what the examples give it: strings of decimal digits.
\<close>

definition host_cmath :: cmath where
  "host_cmath =
     \<lparr>fabs = abs, acos = arccos, asin = arcsin, atan = arctan,
      ceil = (\<lambda>x. of_int \<lceil>x\<rceil>), cos_c = cos, cosh_c = cosh, exp_c = exp,
      floor_c = (\<lambda>x. of_int \<lfloor>x\<rfloor>), log_c = ln, log10 = log 10, sin_c = sin,
      sinh_c = sinh, sqrt_c = sqrt, tan_c = tan, pow = (powr),
      fmod = (\<lambda>x y. x - y * of_int (if 0 \<le> x / y then \<lfloor>x / y\<rfloor> else \<lceil>x / y\<rceil>)),
      atan2 = (\<lambda>y x. if 0 < x then arctan (y / x)
                 else if x < 0 then (if 0 \<le> y then arctan (y / x) + pi else arctan (y / x) - pi)
                 else sgn y * pi / 2)\<rparr>"

definition atof_digits :: "string \<Rightarrow> real" where
  "atof_digits s =
     of_nat (foldl (\<lambda>n c. 10 * n + (of_char c - 48))
        0 (takeWhile (\<lambda>c. 48 \<le> (of_char c :: nat) \<and> (of_char c :: nat) \<le> 57) s))"

text \<open>
  The set-up of \<^verbatim>\<open>test_vm\<close>: a compiler that counts arguments and creates variables, and
  the default run-time environment, built in the empty store.
\<close>

definition test_compiler :: compiler where
  "test_compiler = \<lparr>create_variables = True, count_args = True\<rparr>"

definition default_machine :: "real machine" where
  "default_machine = projr (generate_default_rte host_cmath heap0)"

definition default_functions :: "real function_i list" where
  "default_functions = projr (generate_def_functions host_cmath)"

text \<open>
  The reverse Polish form of \<^verbatim>\<open>(1,2,3) + (4,5,6)\<close>, as \<^verbatim>\<open>to_rpn\<close> leaves it: every
  parenthesis and comma of \<^verbatim>\<open>(((1),(2),(3)),((4),(5),(6)) +[ 3 3 3 ])\<close> has become a blank
  and runs of blanks are single blanks. Then its tokens and the program they compile to.
\<close>

definition plus3 :: "real function_i" where
  "plus3 = function_i ''+'' 6 3 3 (Vector_op_apply 3 (function_i ''+'' 2 1 1 (Binary_function add)))"

definition vec_add_rpn :: string where
  "vec_add_rpn = '' 1 2 3 4 5 6 +[ 3 3 3 ] ''"

definition vec_add_tokens :: "token list" where
  "vec_add_tokens =
     [value_token ''1'', value_token ''2'', value_token ''3'',
      value_token ''4'', value_token ''5'', value_token ''6'',
      operator_token ''+'' 3 3 3]"

definition vec_add_prog :: "real instruction list" where
  "vec_add_prog =
     [load_val 1, load_val 2, load_val 3, load_val 4, load_val 5, load_val 6, call_fun plus3]"

text \<open>The operators that \<^verbatim>\<open>test_vm\<close> gives the parser.\<close>

definition ops_array :: "operator_type list" where
  "ops_array =
     [operator_type ''cross3'' 1 0 6 3 False,
      operator_type ''^'' 2 1 1 1 False, operator_type ''*'' 2 3 3 1 False,
      operator_type ''*'' 2 1 1 1 False, operator_type ''/'' 2 1 1 1 False,
      operator_type ''-'' 1 0 1 1 False, operator_type ''-'' 2 1 1 1 False,
      operator_type ''-'' 2 3 3 3 False,
      operator_type ''+'' 2 3 3 3 False, operator_type ''+'' 2 1 1 1 False,
      operator_type ''='' 2 1 1 1 True,
      operator_type ''='' 2 3 3 3 True]"

text \<open>
  Assignments typed at the prompt after \<^verbatim>\<open>@count\<close> has switched the counting of the parser
  off: the reverse Polish forms of \<^verbatim>\<open>x = 2\<close> and of \<^verbatim>\<open>3 = 4\<close>, their tokens, and the
  programs they compile to in the default run-time environment. The last program is what
  \<^verbatim>\<open>3 = 4\<close> compiles to with the counting on.
\<close>

definition assign_count_off_rpn :: string where
  "assign_count_off_rpn = '' 2 x = ''"

definition assign_count_off_tokens :: "token list" where
  "assign_count_off_tokens =
     [value_token ''2'', name_token ''x'', operator_token ''='' (- 1) (- 1) (- 1)]"

definition assign_count_off_prog :: "real instruction list" where
  "assign_count_off_prog = [load_val 2, load_var 0, call_fun (vector_assign 4)]"

definition bad_assign_rpn :: string where
  "bad_assign_rpn = '' 4 3 = ''"

definition bad_assign_tokens :: "token list" where
  "bad_assign_tokens =
     [value_token ''4'', value_token ''3'', operator_token ''='' (- 1) (- 1) (- 1)]"

definition bad_assign_prog :: "real instruction list" where
  "bad_assign_prog = [load_val 4, load_val 3, call_fun (vector_assign 4)]"

definition bad_scalar_assign_prog :: "real instruction list" where
  "bad_scalar_assign_prog = [load_val 4, load_val 3, call_fun scalar_assign]"

text \<open>The value stack a run ends with, when it ends normally.\<close>

definition final_stack :: "(unit, 'v machine) outcome \<Rightarrow> 'v list option" where
  "final_stack r = (case r of Done _ (h, rt) \<Rightarrow> Some (stack rt) | _ \<Rightarrow> None)"

text \<open>Programs in which an assignment is not preceded by the loads of its variables.\<close>

definition prog_bad2 :: "real instruction list" where
  "prog_bad2 = [load_val 1, load_val 2, call_fun (vector_assign 2)]"

fun is_load_var :: "'v instruction \<Rightarrow> bool" where
  "is_load_var (load_var a) = True"
| "is_load_var _ = False"

section \<open>Lemmas\<close>

subsection \<open>The default run-time environment\<close>

lemma generate_def_functions_host: "generate_def_functions host_cmath = Inr default_functions"
  by (simp add: default_functions_def generate_def_functions_def binary_functions_def
      vector_op_apply_def function_i_def)

lemma default_machine_eq:
  "generate_default_rte host_cmath heap0 = Inr default_machine"
  by (simp add: default_machine_def generate_default_rte_def generate_def_functions_host
      split: prod.splits)

lemma default_fun_tab: "fun_tab (snd default_machine) = default_functions"
  by (simp add: default_machine_def generate_default_rte_def generate_def_functions_host
      rte_def split: prod.splits)

lemma default_var_tab: "var_tab (snd default_machine) = [0, 1, 2, 3]"
  by (simp add: default_machine_def generate_default_rte_def generate_def_functions_host
      rte_def generate_def_variables_def generate_def_constants_def generate_constants_def
      variables_def constants_def new_value_def heap0_def split: prod.splits)

lemma default_const_tab: "const_tab (snd default_machine) = [4, 5, 6]"
  by (simp add: default_machine_def generate_default_rte_def generate_def_functions_host
      rte_def generate_def_variables_def generate_def_constants_def generate_constants_def
      variables_def constants_def new_value_def heap0_def split: prod.splits)

lemma default_cells:
  "value_name (cells (fst default_machine) 0) = ''x''"
  "value_name (cells (fst default_machine) 1) = ''y''"
  "value_name (cells (fst default_machine) (Suc 0)) = ''y''"
  "value_name (cells (fst default_machine) 2) = ''z''"
  "value_name (cells (fst default_machine) 3) = ''w''"
  "value_name (cells (fst default_machine) 4) = ''e''"
  "value_name (cells (fst default_machine) 5) = ''log2e''"
  "value_name (cells (fst default_machine) 6) = ''Pi''"
  "next_free (fst default_machine) = 7"
  by (simp_all add: default_machine_def generate_default_rte_def generate_def_functions_host
      rte_def generate_def_variables_def generate_def_constants_def generate_constants_def
      variables_def constants_def new_value_def heap0_def split: prod.splits)

lemma default_variable_x: "variable_p default_machine ''x'' = Some 0"
  by (simp add: variable_p_def default_var_tab default_cells)

lemma default_function_assign:
  "function_p (snd default_machine) ''='' 1 1 = Some scalar_assign"
  by (simp add: function_p_def default_fun_tab default_functions_def generate_def_functions_def
      binary_functions_def unary_functions_def
      vector_op_apply_def function_i_def generate_unary_functions_def
      generate_binary_functions_def vector_assign_def crossprod3_def dotprod3_def scalar_assign_def)

lemma default_function_plus3:
  "function_p (snd default_machine) ''+'' 3 3
   = Some (function_i ''+'' 6 3 3 (Vector_op_apply 3 (function_i ''+'' 2 1 1 (Binary_function add))))"
  by (simp add: function_p_def default_fun_tab default_functions_def generate_def_functions_def
      binary_functions_def unary_functions_def
      vector_op_apply_def function_i_def generate_unary_functions_def
      generate_binary_functions_def vector_assign_def crossprod3_def dotprod3_def scalar_assign_def)

lemma compile_vec_add:
  "compile atof_digits test_compiler (map Some vec_add_tokens) default_machine
     = Done vec_add_prog default_machine"
  by (simp add: compile_def vec_add_tokens_def compile_token_def default_function_plus3
      atof_digits_def vec_add_prog_def plus3_def)

lemma run_vec_add:
  "run 0 (h, rt\<lparr>prog_p := Some vec_add_prog\<rparr>)
     = Done () (h, rt\<lparr>prog_p := Some vec_add_prog, stack := 9 # 7 # 5 # stack rt, ip := 7\<rparr>)"
  by (simp add: run_def run_loop.simps prog_at_def vec_add_prog_def plus3_def function_i_def
      vector_op_apply_call_def binary_function_def add_def numeral_3_eq_3)

lemma default_machine_stack: "stack (snd default_machine) = []"
  by (simp add: default_machine_def generate_default_rte_def generate_def_functions_host
      rte_def split: prod.splits)

subsection \<open>Tokens of annotated words\<close>

lemma create_tokens_vec_add:
  "create_tokens ops_array True False vec_add_rpn [] = Done () vec_add_tokens"
  by code_simp

lemma create_token_null:
  assumes "str_find s CHR ''['' 0 = Some i"
    and "str_find s CHR '']'' i = Some c"
    and "length (read_ints (istringstream (between s (i + 1) c)) []) \<notin> {1, 2, 3}"
  shows "create_token ops True s = Inr None"
proof -
  define vs where "vs = read_ints (istringstream (between s (i + 1) c)) []"
  from assms(3) have "(case vs of
                          [v0] \<Rightarrow> Some (function_token (take i s) v0 (- 1))
                        | [v0, v1] \<Rightarrow> Some (function_token (take i s) v0 v1)
                        | [v0, v1, v2] \<Rightarrow> Some (operator_token (take i s) v0 v1 v2)
                        | _ \<Rightarrow> None) = None"
    unfolding vs_def[symmetric] by (auto split: list.splits)
  with assms(1,2) show ?thesis
    by (simp add: create_token_def vs_def)
qed

lemma create_token_unclosed:
  assumes "str_find s CHR ''['' 0 = Some i" and "str_find s CHR '']'' i = None"
  shows "create_token ops True s = Inr (Some (token s))"
  using assms by (simp add: create_token_def)

lemma annotation_cut_at_end_of_input:
  "create_tokens ops_array True False ''f[ 1 2 3 4 ]'' [] = Done () [token ''f[ 1 2 3 4'']
   \<and> create_tokens ops_array True False ''f[ ]'' [] = Done () [token ''f['']"
  by code_simp

subsection \<open>Lookup of a variable by name\<close>

lemma scan_cells_Some:
  "scan_cells h x as = Some a \<Longrightarrow> a \<in> set as \<and> value_name (cells h a) = x"
  by (induction as) (auto split: if_splits)

lemma scan_cells_unique:
  assumes "a \<in> set as" and "value_name (cells h a) = x"
    and "\<forall>b\<in>set as. value_name (cells h b) = x \<longrightarrow> b = a"
  shows "scan_cells h x as = Some a"
  using assms
proof (induction as)
  case Nil
  then show ?case by simp
next
  case (Cons b as)
  show ?case
  proof (cases "value_name (cells h b) = x")
    case True
    with Cons.prems(3) have "b = a" by simp
    with True show ?thesis by simp
  next
    case False
    with Cons.prems(1,2) have "a \<in> set as" by auto
    moreover from Cons.prems(3) have "\<forall>b\<in>set as. value_name (cells h b) = x \<longrightarrow> b = a" by simp
    ultimately have "scan_cells h x as = Some a" using Cons.prems(2) by (intro Cons.IH)
    with False show ?thesis by simp
  qed
qed

subsection \<open>Assignment resolved by name alone\<close>

lemma create_tokens_count_off:
  "create_tokens ops_array False False assign_count_off_rpn [] = Done () assign_count_off_tokens"
  by code_simp

lemma default_function_assign_by_name:
  "function_p (snd default_machine) ''='' (- 1) (- 1) = Some (vector_assign 4)"
  by (simp add: function_p_def default_fun_tab default_functions_def generate_def_functions_def
      binary_functions_def unary_functions_def
      vector_op_apply_def function_i_def generate_unary_functions_def
      generate_binary_functions_def vector_assign_def crossprod3_def dotprod3_def scalar_assign_def)

lemma compile_count_off:
  "compile atof_digits test_compiler (map Some assign_count_off_tokens) default_machine
     = Done assign_count_off_prog default_machine"
  by (simp add: compile_def assign_count_off_tokens_def compile_token_def
      default_function_assign_by_name default_variable_x test_compiler_def
      atof_digits_def assign_count_off_prog_def)

lemma four: "(4::nat) = Suc (Suc (Suc (Suc 0)))"
  by simp

lemma run_count_off:
  "stack rt = [] \<Longrightarrow> run 0 (h, rt\<lparr>prog_p := Some assign_count_off_prog\<rparr>) = Undefined"
  by (simp add: run_def run_loop.simps prog_at_def assign_count_off_prog_def
      vector_assign_def function_i_def vector_assign_call_def four)

lemma create_tokens_bad_assign:
  "create_tokens ops_array False False bad_assign_rpn [] = Done () bad_assign_tokens"
  by code_simp

lemma compile_bad_assign:
  "compile atof_digits test_compiler (map Some bad_assign_tokens) default_machine
     = Done bad_assign_prog default_machine"
  by (simp add: compile_def bad_assign_tokens_def compile_token_def
      default_function_assign_by_name atof_digits_def bad_assign_prog_def)

lemma compile_bad_scalar_assign:
  "compile atof_digits test_compiler
     [Some (value_token ''4''), Some (value_token ''3''), Some (operator_token ''='' 1 1 1)]
     default_machine
     = Done bad_scalar_assign_prog default_machine"
  by (simp add: compile_def compile_token_def default_function_assign atof_digits_def
      bad_scalar_assign_prog_def)

lemma run_bad_assign:
  "stack rt = [] \<Longrightarrow> run 0 (h, rt\<lparr>prog_p := Some bad_assign_prog\<rparr>) = Undefined"
  by (simp add: run_def run_loop.simps prog_at_def bad_assign_prog_def
      vector_assign_def function_i_def vector_assign_call_def four)

lemma run_bad_scalar_assign:
  "stack rt = [] \<Longrightarrow> run 0 (h, rt\<lparr>prog_p := Some bad_scalar_assign_prog\<rparr>)
     = Throw invalid_assign (h, rt\<lparr>prog_p := Some bad_scalar_assign_prog, stack := [4], ip := 2\<rparr>)"
  by (simp add: run_def run_loop.simps prog_at_def bad_scalar_assign_prog_def
      scalar_assign_def function_i_def scalar_assign_call_def)

lemma bad_assign_no_check:
  "assign_values 4 0 bad_assign_prog [] (h, rt\<lparr>stack := pop_values 4 [3, 4], ip := 2\<rparr>)
     = Done [] (h, rt\<lparr>stack := [], ip := 2\<rparr>)"
  by (simp add: four)

lemma push_unwritten: "push_values 4 [] (s :: real list) = None"
  by (simp add: four)

subsection \<open>Assignment without a variable to assign to\<close>

lemma assign_values_throws:
  assumes "prog_at prog (ip rt) (1 + j) = Some ins" and "\<not> is_load_var ins"
    and "i \<le> j" and "j < i + k" and "j - i < length (stack rt)" and "ip rt \<le> length prog"
  shows "\<exists>m'. assign_values k i prog v (h, rt) = Throw invalid_assign m'"
  using assms
proof (induction k arbitrary: i v h rt)
  case 0
  then show ?case by simp
next
  case (Suc k)
  from Suc.prems(5) obtain x s where st: "stack rt = x # s"
    by (cases "stack rt") auto
  from Suc.prems(1) have ipj: "1 + j \<le> ip rt"
    by (simp add: prog_at_def split: if_splits)
  with Suc.prems(3,6) have "\<not> ip rt < 1 + i" and "\<not> length prog \<le> ip rt - (1 + i)"
    by arith+
  then have at: "prog_at prog (ip rt) (1 + i) = Some (prog ! (ip rt - (1 + i)))"
    unfolding prog_at_def by simp
  define ins' where "ins' = prog ! (ip rt - (1 + i))"
  note at = at[folded ins'_def]
  show ?case
  proof (cases "is_load_var ins'")
    case True
    then obtain a where ins': "ins' = load_var a" by (cases ins') auto
    from True at Suc.prems(1,2) have "i \<noteq> j" by auto
    with Suc.prems(3) have lt: "Suc i \<le> j" by simp
    let ?rt = "rt\<lparr>stack := s\<rparr>"
    have "\<exists>m'. assign_values k (Suc i) prog (v @ [x]) (set_val h a x, ?rt) = Throw invalid_assign m'"
    proof (rule Suc.IH)
      show "prog_at prog (ip ?rt) (1 + j) = Some ins" using Suc.prems(1) by simp
      show "\<not> is_load_var ins" by fact
      show "Suc i \<le> j" by fact
      show "j < Suc i + k" using Suc.prems(4) by simp
      show "j - Suc i < length (stack ?rt)" using Suc.prems(5) lt st by simp
      show "ip ?rt \<le> length prog" using Suc.prems(6) by simp
    qed
    with st at ins' show ?thesis by simp
  next
    case False
    with st at show ?thesis by (cases ins') auto
  qed
qed

lemma length_pop_values: "length (pop_values n s) = length s - n"
  by (induction n s rule: pop_values.induct) simp_all

lemma vector_assign_throws:
  assumes "prog_p rt = Some prog" and "ip rt \<le> length prog" and "i < N"
    and "prog_at prog (ip rt) (1 + i) = Some ins" and "\<not> is_load_var ins"
    and "N + i < length (stack rt)"
  shows "\<exists>m'. call (vector_assign N) (h, rt) = Throw invalid_assign m'"
proof -
  let ?rt = "rt\<lparr>stack := pop_values N (stack rt)\<rparr>"
  have "\<exists>m'. assign_values N 0 prog [] (h, ?rt) = Throw invalid_assign m'"
  proof (rule assign_values_throws)
    show "prog_at prog (ip ?rt) (1 + i) = Some ins" using assms(4) by simp
    show "\<not> is_load_var ins" by fact
    show "0 \<le> i" by simp
    show "i < 0 + N" using assms(3) by simp
    show "i - 0 < length (stack ?rt)" using assms(6) by (simp add: length_pop_values)
    show "ip ?rt \<le> length prog" using assms(2) by simp
  qed
  with assms(1) show ?thesis
    by (auto simp: vector_assign_def function_i_def vector_assign_call_def)
qed

lemma scalar_assign_throws:
  assumes "stack rt \<noteq> []" and "prog_p rt = Some prog"
    and "prog_at prog (ip rt) 1 = Some ins" and "\<not> is_load_var ins"
  shows "call scalar_assign (h, rt) = Throw invalid_assign (h, rt\<lparr>stack := tl (stack rt)\<rparr>)"
  using assms
  by (cases ins; cases "stack rt")
    (simp_all add: scalar_assign_def function_i_def scalar_assign_call_def)

text \<open>
  Where the check of an assignment is reached, an instruction that is not a \<^verbatim>\<open>load_var\<close>
  makes it throw.
\<close>

lemma assign_without_load_var_throws:
  "(stack rt \<noteq> [] \<and> prog_p rt = Some prog \<and> prog_at prog (ip rt) 1 = Some ins
      \<and> \<not> is_load_var ins
    \<longrightarrow> call scalar_assign (h, rt) = Throw invalid_assign (h, rt\<lparr>stack := tl (stack rt)\<rparr>))
   \<and> (prog_p rt = Some prog \<and> ip rt \<le> length prog \<and> i < N
      \<and> prog_at prog (ip rt) (1 + i) = Some ins \<and> \<not> is_load_var ins
      \<and> N + i < length (stack rt)
    \<longrightarrow> (\<exists>m'. call (vector_assign N) (h, rt) = Throw invalid_assign m'))"
  using scalar_assign_throws vector_assign_throws by blast

subsection \<open>The loop of the virtual machine\<close>

lemma run_loop_refines:
  "ip rt \<le> length prog \<Longrightarrow> run_loop prog (h, rt) = run_loop_spec prog (h, rt)"
proof (induction prog "(h, rt)" arbitrary: h rt rule: run_loop.induct)
  case (1 prog h rt)
  show ?case
  proof (cases "ip rt = length prog")
    case True
    then show ?thesis by (simp add: run_loop.simps run_loop_spec.simps)
  next
    case False
    with "1.prems" have lt: "ip rt < length prog" by simp
    then have at: "prog_at prog (ip rt) 0 = Some (prog ! ip rt)"
      by (simp add: prog_at_def)
    show ?thesis
    proof (cases "exec (prog ! ip rt) (h, rt)")
      case (Done u m')
      obtain h' rt' where m': "m' = (h', rt')" by (cases m')
      from Done m' have "ip rt' = ip rt" by (auto dest: exec_ip)
      with lt have le: "ip (rt'\<lparr>ip := ip rt' + 1\<rparr>) \<le> length prog" by simp
      from "1.hyps"[OF False at Done[unfolded m'] refl le] Done m' at lt False
      show ?thesis
        by (simp add: run_loop.simps[of prog h rt] run_loop_spec.simps[of prog h rt])
    next
      case (Throw e m')
      with at lt False show ?thesis
        by (simp add: run_loop.simps[of prog h rt] run_loop_spec.simps[of prog h rt])
    next
      case Undefined
      with at lt False show ?thesis
        by (simp add: run_loop.simps[of prog h rt] run_loop_spec.simps[of prog h rt])
    qed
  qed
qed

lemma run_loop_done_ip:
  "run_loop prog (h, rt) = Done u (h', rt') \<Longrightarrow> ip rt' = length prog"
proof (induction prog "(h, rt)" arbitrary: h rt rule: run_loop.induct)
  case (1 prog h rt)
  show ?case
  proof (cases "ip rt = length prog")
    case True
    with "1.prems" show ?thesis by (simp add: run_loop.simps)
  next
    case False
    with "1.prems" obtain i u1 h1 rt1 where
      at: "prog_at prog (ip rt) 0 = Some i" and
      ex: "exec i (h, rt) = Done u1 (h1, rt1)" and
      rec: "run_loop prog (h1, rt1\<lparr>ip := ip rt1 + 1\<rparr>) = Done u (h', rt')"
      by (auto simp: run_loop.simps[of prog h rt] split: option.splits outcome.splits)
    from "1.hyps"[OF False at ex refl rec] show ?thesis .
  qed
qed

subsection \<open>The loop of the compiler\<close>

lemma compile_loop_length:
  "compile_loop atof c tokens program m = Done prog m' \<Longrightarrow>
     \<exists>insts. prog = program @ insts \<and> length insts = length tokens
       \<and> list_all2 (\<lambda>t i. \<exists>m1 m2. compile_token atof c t m1 = Done i m2) tokens insts"
proof (induction tokens arbitrary: program m)
  case Nil
  then show ?case by simp
next
  case (Cons t ts)
  from Cons.prems obtain inst m1 where
    a: "compile_token atof c t m = Done inst m1" and
    b: "compile_loop atof c ts (program @ [inst]) m1 = Done prog m'"
    by (auto split: outcome.splits)
  from Cons.IH[OF b] obtain insts where
    c: "prog = (program @ [inst]) @ insts" "length insts = length ts"
      "list_all2 (\<lambda>t i. \<exists>m1 m2. compile_token atof c t m1 = Done i m2) ts insts"
    by blast
  from a have d: "\<exists>m1 m2. compile_token atof c t m1 = Done inst m2" by blast
  have "prog = program @ (inst # insts) \<and> length (inst # insts) = length (t # ts)
       \<and> list_all2 (\<lambda>t i. \<exists>m1 m2. compile_token atof c t m1 = Done i m2) (t # ts) (inst # insts)"
    unfolding list_all2_Cons using c d by simp
  then show ?case by blast
qed

subsection \<open>The program of an assignment\<close>

lemma run3:
  "run 0 (h, vm\<lparr>prog_p := Some [load_val V, load_var a, call_fun scalar_assign]\<rparr>) =
       Done () (set_val h a V,
         vm\<lparr>prog_p := Some [load_val V, load_var a, call_fun scalar_assign],
            stack := V # stack vm, ip := 3\<rparr>)"
  by (simp add: run_def run_loop.simps prog_at_def scalar_assign_def function_i_def
      scalar_assign_call_def)

section \<open>Properties\<close>

subsection \<open>Lookup of functions\<close>

text \<open>
  C7. \<^verbatim>\<open>function_p( s, rargs, largs )\<close> with \<open>rargs < 0\<close> returns the first function of the
  table, in table order, whose name is \<open>s\<close>; with \<open>rargs \<ge> 0\<close> the first one whose name is
  \<open>s\<close>, whose \<open>rvalues_in\<close> is \<open>rargs\<close> and whose \<open>lvalues_in\<close> is \<open>largs\<close>; the null
  handle (\<open>None\<close>) when the table has no such function.
\<close>

theorem function_p_first_match:
  "function_p rt s rargs largs =
     (if sint rargs < 0 then find (\<lambda>f. name f = s) (fun_tab rt)
      else find (\<lambda>f. name f = s \<and> rvalues_in f = rargs \<and> lvalues_in f = largs) (fun_tab rt))"
  by (simp add: function_p_def scan_by_name_find scan_by_name_args_find)

subsection \<open>Arity of function objects\<close>

text \<open>
  C9. Every function object is built by the constructor of \<^verbatim>\<open>function_i\<close>, which sets
  \<open>rvalues_in\<close> to \<open>in - lin\<close>; so the number of input values is the sum of the left and
  the right ones (in the arithmetic of \<^verbatim>\<open>int\<close>). The fields are constant: no operation of
  the model changes a function object.
\<close>

theorem function_i_arity_invariant:
  "values_in (function_i n n_in n_out lin k)
     = lvalues_in (function_i n n_in n_out lin k) + rvalues_in (function_i n n_in n_out lin k)
   \<and> rvalues_in (function_i n n_in n_out lin k) = n_in - lin"
  by (simp add: function_i_def)

subsection \<open>Assignment\<close>

text \<open>
  C10. Scalar assignment pops before it checks: called on a non-empty value stack, if it
  leaves by \<^verbatim>\<open>invalid_assign\<close> then the value stack at the throw has lost its top element
  (and nothing else has changed in the store).
\<close>

theorem scalar_assign_pops_before_check:
  assumes "stack rt \<noteq> []"
    and "call scalar_assign (h, rt) = Throw invalid_assign (h', rt')"
  shows "length (stack rt') + 1 = length (stack rt) \<and> stack rt' = tl (stack rt) \<and> h' = h"
  using assms
  by (auto simp: scalar_assign_def function_i_def scalar_assign_call_def
      split: option.splits list.splits instruction.splits)

theorem scalar_assign_pops_before_check_witness:
  "stack ((rte [] [] [])\<lparr>prog_p := Some [load_val 1, call_fun scalar_assign], stack := [1], ip := 1\<rparr>) \<noteq> []
   \<and> call scalar_assign (heap0, (rte [] [] [])\<lparr>prog_p := Some [load_val 1, call_fun scalar_assign], stack := [1], ip := 1\<rparr>)
       = Throw invalid_assign (heap0, (rte [] [] [])\<lparr>prog_p := Some [load_val 1, call_fun scalar_assign], stack := [], ip := 1\<rparr>)
   \<and> length (stack ((rte [] [] [])\<lparr>prog_p := Some [load_val 1, call_fun (scalar_assign :: real function_i)], stack := ([] :: real list), ip := 1\<rparr>)) + 1
       = length (stack ((rte [] [] [])\<lparr>prog_p := Some [load_val 1, call_fun (scalar_assign :: real function_i)], stack := [1 :: real], ip := 1\<rparr>))"
proof -
  let ?rt = "(rte [] [] [])\<lparr>prog_p := Some [load_val 1, call_fun scalar_assign], stack := [1 :: real], ip := 1\<rparr>"
  let ?rt' = "(rte [] [] [])\<lparr>prog_p := Some [load_val 1, call_fun scalar_assign], stack := ([] :: real list), ip := 1\<rparr>"
  have a: "stack ?rt \<noteq> []" by simp
  have b: "call scalar_assign (heap0, ?rt) = Throw invalid_assign (heap0, ?rt')"
    by (simp add: scalar_assign_def function_i_def scalar_assign_call_def prog_at_def rte_def)
  from scalar_assign_pops_before_check[OF a b] a b show ?thesis by simp
qed

text \<open>
  C3 fails on the code. After \<^verbatim>\<open>@count\<close>, the input \<^verbatim>\<open>3 = 4\<close> becomes \<^verbatim>\<open>4 3 =\<close>; the
  operator resolves by name to the vector assignment of dimension 4, and the instruction
  before it is a \<^verbatim>\<open>load_val\<close>. The first loop of the assignment pops the two values, the
  second loop finds the stack empty and checks no instruction, nothing is thrown, and the
  last loop pushes four elements of an array that was never written. Scalar assignment
  throws \<^verbatim>\<open>invalid_assign\<close> on the same two loads. The same happens to the tokens of
  \<^verbatim>\<open>1 2 =[ 2 2 2 ]\<close> with the vector assignment of dimension 2.
\<close>

theorem vector_assign_short_stack_no_throw:
  "create_tokens ops_array False False bad_assign_rpn [] = Done () bad_assign_tokens
   \<and> compile atof_digits test_compiler (map Some bad_assign_tokens) default_machine
       = Done bad_assign_prog default_machine
   \<and> prog_at bad_assign_prog 2 1 = Some (load_val 3)
   \<and> assign_values 4 0 bad_assign_prog []
        (fst default_machine, (snd default_machine)\<lparr>stack := pop_values 4 [3, 4], ip := 2\<rparr>)
       = Done [] (fst default_machine, (snd default_machine)\<lparr>stack := [], ip := 2\<rparr>)
   \<and> push_values 4 [] ([] :: real list) = None
   \<and> run 0 (fst default_machine, (snd default_machine)\<lparr>prog_p := Some bad_assign_prog\<rparr>)
       = Undefined
   \<and> run 0 (fst default_machine, (snd default_machine)\<lparr>prog_p := Some bad_scalar_assign_prog\<rparr>)
       = Throw invalid_assign
           (fst default_machine,
            (snd default_machine)\<lparr>prog_p := Some bad_scalar_assign_prog, stack := [4], ip := 2\<rparr>)
   \<and> run 0 (heap0, (rte [] [] [])\<lparr>prog_p := Some prog_bad2\<rparr>) = Undefined"
proof -
  have "prog_at bad_assign_prog 2 1 = Some (load_val 3)"
    by (simp add: prog_at_def bad_assign_prog_def)
  moreover have "run 0 (heap0, (rte [] [] [])\<lparr>prog_p := Some prog_bad2\<rparr>) = Undefined"
    by (simp add: run_def prog_bad2_def rte_def run_loop.simps prog_at_def
      vector_assign_def function_i_def vector_assign_call_def numeral_2_eq_2)
  ultimately show ?thesis
    by (simp add: create_tokens_bad_assign compile_bad_assign bad_assign_no_check push_unwritten
        run_bad_assign run_bad_scalar_assign default_machine_stack)
qed

text \<open>
  C1, as the code has it. Let \<open>x\<close> name a variable of the run-time environment: a cell
  \<open>a\<close> of the variable table has the name \<open>x\<close>, and no other cell of the table has. Let
  the operator token be \<^verbatim>\<open>=[ 1 1 1 ]\<close>, as the parser writes it when it counts arguments,
  and let it resolve to scalar assignment; let \<open>x\<close> not name a function where the compiler
  looks names up as functions. Then the tokens of \<^verbatim>\<open>V x =\<close> compile to \<^verbatim>\<open>load_val\<close>,
  \<^verbatim>\<open>load_var\<close> of \<open>a\<close>, \<^verbatim>\<open>call_fun\<close>, and running that program from any state of the
  machine ends with the value \<open>V\<close> in the cell \<open>a\<close>, still named \<open>x\<close>, and on top of the
  value stack.
\<close>

theorem assign_sets_variable_and_top:
  assumes "a \<in> set (var_tab rt)" and "value_name (cells h a) = x"
    and "\<forall>b\<in>set (var_tab rt). value_name (cells h b) = x \<longrightarrow> b = a"
    and "function_p rt ''='' 1 1 = Some scalar_assign"
    and "count_args c \<or> function_p rt x (- 1) 0 = None"
  shows "compile atof c [Some (value_token s), Some (name_token x),
            Some (operator_token ''='' 1 1 1)] (h, rt)
       = Done [load_val (atof s), load_var a, call_fun scalar_assign] (h, rt)
    \<and> run 0 (h, vm\<lparr>prog_p := Some [load_val (atof s), load_var a, call_fun scalar_assign]\<rparr>)
       = Done () (set_val h a (atof s),
           vm\<lparr>prog_p := Some [load_val (atof s), load_var a, call_fun scalar_assign],
              stack := atof s # stack vm, ip := 3\<rparr>)
    \<and> value_name (cells (set_val h a (atof s)) a) = x
    \<and> val (cells (set_val h a (atof s)) a) = atof s"
proof -
  have "scan_cells h x (var_tab rt) = Some a"
    using assms(1-3) by (rule scan_cells_unique)
  then have v: "variable_p (h, rt) x = Some a"
    by (simp add: variable_p_def)
  from v assms(4,5) have "compile atof c [Some (value_token s), Some (name_token x),
            Some (operator_token ''='' 1 1 1)] (h, rt)
       = Done [load_val (atof s), load_var a, call_fun scalar_assign] (h, rt)"
    by (auto simp: compile_def compile_token_def)
  moreover have "val (cells (set_val h a (atof s)) a) = atof s"
    by (simp add: set_val_def)
  moreover have "value_name (cells (set_val h a (atof s)) a) = x"
    using assms(2) by (simp add: set_val_def)
  ultimately show ?thesis using run3 by blast
qed

theorem assign_sets_variable_and_top_witness:
  "1 \<in> set (var_tab (snd default_machine))
   \<and> value_name (cells (fst default_machine) 1) = ''y''
   \<and> function_p (snd default_machine) ''='' 1 1 = Some scalar_assign
   \<and> count_args test_compiler
   \<and> compile atof_digits test_compiler [Some (value_token ''2''), Some (name_token ''y''),
          Some (operator_token ''='' 1 1 1)] default_machine
       = Done [load_val 2, load_var 1, call_fun scalar_assign] default_machine
   \<and> run 0 (fst default_machine,
          (snd default_machine)\<lparr>prog_p := Some [load_val 2, load_var 1, call_fun scalar_assign]\<rparr>)
       = Done () (set_val (fst default_machine) 1 2,
           (snd default_machine)\<lparr>prog_p := Some [load_val 2, load_var 1, call_fun scalar_assign],
              stack := [2], ip := 3\<rparr>)
   \<and> value_name (cells (set_val (fst default_machine) 1 2) 1) = ''y''
   \<and> val (cells (set_val (fst default_machine) 1 2) 1) = 2"
proof -
  have a: "1 \<in> set (var_tab (snd default_machine))"
    by (simp add: default_var_tab)
  have b: "value_name (cells (fst default_machine) 1) = ''y''"
    by (simp add: default_cells)
  have u: "\<forall>b\<in>set (var_tab (snd default_machine)).
      value_name (cells (fst default_machine) b) = ''y'' \<longrightarrow> b = 1"
    by (simp add: default_var_tab default_cells)
  have c: "count_args test_compiler \<or> function_p (snd default_machine) ''y'' (- 1) 0 = None"
    by (simp add: test_compiler_def)
  have d: "atof_digits ''2'' = 2"
    by (simp add: atof_digits_def)
  have e: "default_machine = (fst default_machine, snd default_machine)"
    by simp
  from assign_sets_variable_and_top[OF a b u default_function_assign c,
      of atof_digits "''2''" "snd default_machine"] a b
  show ?thesis
    unfolding d by (simp add: default_function_assign test_compiler_def default_machine_stack)
qed

text \<open>
  C1 as stated fails when the parser does not count arguments: the token of \<^verbatim>\<open>=\<close> then
  carries no arity, the operator resolves by name alone to the first \<^verbatim>\<open>=\<close> of the function
  table, which in the default run-time environment is the vector assignment of dimension
  4, and the run of \<^verbatim>\<open>2 x =\<close> does not end with 2 in the cell of \<open>x\<close>: it pops both
  values, writes no cell and reads an array that was never written.
\<close>

theorem assign_by_name_counterexample:
  "create_tokens ops_array False False assign_count_off_rpn [] = Done () assign_count_off_tokens
   \<and> compile atof_digits test_compiler (map Some assign_count_off_tokens) default_machine
       = Done assign_count_off_prog default_machine
   \<and> assign_count_off_prog = [load_val 2, load_var 0, call_fun (vector_assign 4)]
   \<and> value_name (cells (fst default_machine) 0) = ''x''
   \<and> run 0 (fst default_machine, (snd default_machine)\<lparr>prog_p := Some assign_count_off_prog\<rparr>)
       = Undefined"
  by (simp add: create_tokens_count_off compile_count_off run_count_off default_machine_stack
      default_cells) (simp add: assign_count_off_prog_def)

subsection \<open>The loop of the virtual machine\<close>

text \<open>
  C5, as the code has it: for an entry point that is not beyond the end of the program,
  \<^verbatim>\<open>vm::run\<close> does what the loop of the specification does, and when it returns the
  instruction pointer is not less than the size of the program.
\<close>

theorem run_refines_spec:
  assumes "prog_p rt = Some prog" and "entry \<le> length prog"
  shows "run entry (h, rt) = run_spec entry (h, rt)
    \<and> (\<forall>h' rt'. run entry (h, rt) = Done () (h', rt') \<longrightarrow> \<not> ip rt' < length prog)"
proof -
  have "run_loop prog (h, rt\<lparr>ip := entry\<rparr>) = run_loop_spec prog (h, rt\<lparr>ip := entry\<rparr>)"
    using assms(2) by (intro run_loop_refines) simp
  moreover have "ip rt' = length prog"
    if "run_loop prog (h, rt\<lparr>ip := entry\<rparr>) = Done () (h', rt')" for h' rt'
    using that by (rule run_loop_done_ip)
  ultimately show ?thesis
    using assms(1) by (auto simp: run_def run_spec_def)
qed

theorem run_refines_spec_witness:
  "prog_p ((rte [] [] [])\<lparr>prog_p := Some [load_val (1::real), load_val 2]\<rparr>) = Some [load_val 1, load_val 2]
   \<and> (1::nat) \<le> length [load_val (1::real), load_val 2]
   \<and> run 1 (heap0, (rte [] [] [])\<lparr>prog_p := Some [load_val 1, load_val 2]\<rparr>)
       = run_spec 1 (heap0, (rte [] [] [])\<lparr>prog_p := Some [load_val 1, load_val 2]\<rparr>)
   \<and> run 1 (heap0, (rte [] [] [])\<lparr>prog_p := Some [load_val 1, load_val 2]\<rparr>)
       = Done () (heap0, (rte [] [] [])\<lparr>prog_p := Some [load_val 1, load_val 2], stack := [2], ip := 2\<rparr>)"
proof -
  let ?rt = "(rte [] [] [])\<lparr>prog_p := Some [load_val (1::real), load_val 2]\<rparr>"
  have a: "prog_p ?rt = Some [load_val 1, load_val 2]" by simp
  have b: "(1::nat) \<le> length [load_val (1::real), load_val 2]" by simp
  have c: "run 1 (heap0, ?rt) = Done () (heap0, ?rt\<lparr>stack := [2], ip := 2\<rparr>)"
    by (simp add: run_def run_loop.simps prog_at_def rte_def)
  from run_refines_spec[OF a b, of heap0] a b c show ?thesis by simp
qed

text \<open>
  C5 as stated fails for an entry point beyond the end: the loop of the code runs while the
  instruction pointer differs from the size of the program, so \<^verbatim>\<open>run( 1 )\<close> on the empty
  program reads \<^verbatim>\<open>prog[ 1 ]\<close>, outside the vector, where the loop of the specification
  returns at once.
\<close>

theorem run_entry_beyond_end_counterexample:
  "run 1 (heap0, (rte [] [] [])\<lparr>prog_p := Some []\<rparr>) = Undefined
   \<and> run_spec 1 (heap0, (rte [] [] [])\<lparr>prog_p := Some []\<rparr>)
       = Done () (heap0, (rte [] [] [])\<lparr>prog_p := Some [], ip := 1\<rparr>)"
  by (simp add: run_def run_spec_def run_loop.simps run_loop_spec.simps prog_at_def)

subsection \<open>The compiler\<close>

text \<open>
  C6. A name token that is no function (looked up by name, and only when arguments are not
  counted), no variable and no constant: with \<open>create_variables\<close> the compiler allocates a
  cell with that name and the value \<open>T()\<close>, appends it to the variable table and returns
  a \<^verbatim>\<open>load_var\<close> of it; without, it throws \<^verbatim>\<open>unknown_token\<close>.
\<close>

theorem compile_unresolved_name:
  assumes "count_args c \<or> function_p rt s (- 1) 0 = None"
    and "variable_p (h, rt) s = None"
    and "constant_p (h, rt) s = None"
  shows "compile_token atof c (Some (name_token s)) (h, rt) =
     (if create_variables c then
        Done (load_var (next_free h))
          (h\<lparr>cells := (cells h)(next_free h := \<lparr>value_name = s, val = 0\<rparr>),
             next_free := Suc (next_free h)\<rparr>,
           rt\<lparr>var_tab := var_tab rt @ [next_free h]\<rparr>)
      else Throw (unknown_token s) (h, rt))"
  using assms by (auto simp: compile_token_def new_value_def)

theorem compile_unresolved_name_witness:
  "count_args test_compiler
   \<and> variable_p default_machine ''q'' = None
   \<and> constant_p default_machine ''q'' = None
   \<and> create_variables test_compiler
   \<and> compile_token atof_digits test_compiler (Some (name_token ''q'')) default_machine
      = Done (load_var 7)
          ((fst default_machine)\<lparr>cells := (cells (fst default_machine))
               (7 := \<lparr>value_name = ''q'', val = 0\<rparr>), next_free := 8\<rparr>,
           (snd default_machine)\<lparr>var_tab := [0, 1, 2, 3, 7]\<rparr>)"
proof -
  have a: "count_args test_compiler \<or> function_p (snd default_machine) ''q'' (- 1) 0 = None"
    by (simp add: test_compiler_def)
  have b: "variable_p (fst default_machine, snd default_machine) ''q'' = None"
    by (simp add: variable_p_def default_var_tab default_cells)
  have c: "constant_p (fst default_machine, snd default_machine) ''q'' = None"
    by (simp add: constant_p_def default_const_tab default_cells)
  from compile_unresolved_name[OF a b c, of atof_digits] b c
  show ?thesis
    by (simp add: test_compiler_def default_var_tab default_cells)
qed

text \<open>
  C8. When \<^verbatim>\<open>compile\<close> returns, the program has as many instructions as there are tokens,
  and the instruction at each position is one that the token at that position compiles to.
\<close>

theorem compile_one_instruction_per_token:
  assumes "compile atof c tokens m = Done prog m'"
  shows "length prog = length tokens
    \<and> list_all2 (\<lambda>t i. \<exists>m1 m2. compile_token atof c t m1 = Done i m2) tokens prog"
  using compile_loop_length[OF assms[unfolded compile_def]] by auto

theorem compile_one_instruction_per_token_witness:
  "compile atof_digits test_compiler (map Some vec_add_tokens) default_machine
     = Done vec_add_prog default_machine
   \<and> length vec_add_prog = length (map Some vec_add_tokens)
   \<and> list_all2 (\<lambda>t i. \<exists>m1 m2. compile_token atof_digits test_compiler t m1 = Done i m2)
        (map Some vec_add_tokens) vec_add_prog"
  using compile_one_instruction_per_token[OF compile_vec_add] compile_vec_add by simp

subsection \<open>Vector addition\<close>

text \<open>
  C2, as the code has it. The reverse Polish form \<^verbatim>\<open>1 2 3 4 5 6 +[ 3 3 3 ]\<close> of
  \<^verbatim>\<open>(1,2,3) + (4,5,6)\<close> is cut into six values and an operator; in the default run-time
  environment these tokens compile to six loads and a call of \<^verbatim>\<open>+\<close> lifted to dimension
  3, and running that program leaves the value stack with, from top to bottom, 9, 7, 5: the
  sum is on the stack in the order of its operands, first component deepest.
\<close>

theorem vec_add_final_stack:
  "generate_default_rte host_cmath heap0 = Inr default_machine
   \<and> create_tokens ops_array True False vec_add_rpn [] = Done () vec_add_tokens
   \<and> compile atof_digits test_compiler (map Some vec_add_tokens) default_machine
       = Done vec_add_prog default_machine
   \<and> final_stack (run 0 (fst default_machine, (snd default_machine)\<lparr>prog_p := Some vec_add_prog\<rparr>))
       = Some [9, 7, 5]"
  by (simp add: default_machine_eq compile_vec_add run_vec_add final_stack_def
      default_machine_stack create_tokens_vec_add)

text \<open>C2 as stated fails: the stack is not 5, 7, 9 from top to bottom.\<close>

theorem vec_add_final_stack_counterexample:
  "create_tokens ops_array True False vec_add_rpn [] = Done () vec_add_tokens
   \<and> compile atof_digits test_compiler (map Some vec_add_tokens) default_machine
       = Done vec_add_prog default_machine
   \<and> final_stack (run 0 (fst default_machine, (snd default_machine)\<lparr>prog_p := Some vec_add_prog\<rparr>))
       \<noteq> Some [5, 7, 9]"
  by (simp add: compile_vec_add run_vec_add final_stack_def default_machine_stack
      create_tokens_vec_add)

subsection \<open>Annotations that are neither a function's nor an operator's\<close>

text \<open>
  C4, as the code has it. With \<open>count_args\<close> on, take the next word of the expression,
  joined with the words that follow it up to the one ending with \<^verbatim>\<open>]\<close> when it holds a
  \<^verbatim>\<open>[\<close> and does not end with \<^verbatim>\<open>]\<close>, and let it hold a \<^verbatim>\<open>[\<close>. When a \<^verbatim>\<open>]\<close> follows
  the \<^verbatim>\<open>[\<close> in the assembled word and the number of integers between them is not 1, 2 or
  3, \<^verbatim>\<open>create_token\<close> returns the null pointer and, with \<open>debug\<close> off,
  \<^verbatim>\<open>create_tokens\<close> goes on with the rest of the expression without a token added: the
  word yields no token. When no \<^verbatim>\<open>]\<close> follows the \<^verbatim>\<open>[\<close> in the assembled word (the
  bracket is missing, or the word that ends with it is the last of the input with nothing
  after it, which the joining loop leaves out), the word yields a token of type
  \<^verbatim>\<open>UNKNOWN\<close>.
\<close>

theorem bad_annotation_yields_no_token:
  assumes "\<not> failbit strm" and "get_word strm [] = (strm1, s)" and "s \<noteq> []"
    and "(if CHR ''['' \<in> set s \<and> last s \<noteq> CHR '']'' then
            (case join_words strm1 '' '' [] of
               (strm2, sv) \<Rightarrow> (strm2, foldl (\<lambda>a w. a @ CHR '' '' # w) s sv))
          else (strm1, s)) = (strm2, word)"
    and "str_find word CHR ''['' 0 = Some i"
  shows "(str_find word CHR '']'' i = Some c
          \<and> length (read_ints (istringstream (between word (i + 1) c)) []) \<notin> {1, 2, 3}
        \<longrightarrow> create_token ops True word = Inr None
          \<and> create_tokens_loop ops True False strm tokens
              = create_tokens_loop ops True False strm2 tokens)
    \<and> (str_find word CHR '']'' i = None
        \<longrightarrow> create_token ops True word = Inr (Some (token word))
          \<and> create_tokens_loop ops True dbg strm tokens
              = create_tokens_loop ops True dbg strm2 (tokens @ [token word]))"
proof (intro conjI impI)
  assume a: "str_find word CHR '']'' i = Some c
          \<and> length (read_ints (istringstream (between word (i + 1) c)) []) \<notin> {1, 2, 3}"
  then show n: "create_token ops True word = Inr None"
    using assms(5) by (intro create_token_null[where i = i and c = c]) auto
  with assms(1-4) show "create_tokens_loop ops True False strm tokens
              = create_tokens_loop ops True False strm2 tokens"
    by (simp add: create_tokens_loop.simps[of ops True False strm tokens])
next
  assume "str_find word CHR '']'' i = None"
  with assms(5) show u: "create_token ops True word = Inr (Some (token word))"
    by (rule create_token_unclosed)
  with assms(1-4) show "create_tokens_loop ops True dbg strm tokens
              = create_tokens_loop ops True dbg strm2 (tokens @ [token word])"
    by (simp add: create_tokens_loop.simps[of ops True dbg strm tokens])
qed

theorem bad_annotation_yields_no_token_witness:
  "(\<not> failbit (istringstream ''f[ 1 2 3 4 ] x'')
   \<and> get_word (istringstream ''f[ 1 2 3 4 ] x'') [] = (istringstream '' 1 2 3 4 ] x'', ''f['')
   \<and> ''f['' \<noteq> []
   \<and> (if CHR ''['' \<in> set ''f['' \<and> last ''f['' \<noteq> CHR '']'' then
          (case join_words (istringstream '' 1 2 3 4 ] x'') '' '' [] of
             (strm2, sv) \<Rightarrow> (strm2, foldl (\<lambda>a w. a @ CHR '' '' # w) ''f['' sv))
        else (istringstream '' 1 2 3 4 ] x'', ''f['')) = (istringstream '' x'', ''f[ 1 2 3 4 ]'')
   \<and> str_find ''f[ 1 2 3 4 ]'' CHR ''['' 0 = Some 1
   \<and> str_find ''f[ 1 2 3 4 ]'' CHR '']'' 1 = Some 11
   \<and> length (read_ints (istringstream (between ''f[ 1 2 3 4 ]'' (1 + 1) 11)) []) \<notin> {1, 2, 3}
   \<and> create_token ops_array True ''f[ 1 2 3 4 ]'' = Inr None
   \<and> create_tokens_loop ops_array True False (istringstream ''f[ 1 2 3 4 ] x'') []
       = create_tokens_loop ops_array True False (istringstream '' x'') [])
   \<and> (\<not> failbit (istringstream ''f[ 1 2 3 4 ]'')
   \<and> get_word (istringstream ''f[ 1 2 3 4 ]'') [] = (istringstream '' 1 2 3 4 ]'', ''f['')
   \<and> (if CHR ''['' \<in> set ''f['' \<and> last ''f['' \<noteq> CHR '']'' then
          (case join_words (istringstream '' 1 2 3 4 ]'') '' '' [] of
             (strm2, sv) \<Rightarrow> (strm2, foldl (\<lambda>a w. a @ CHR '' '' # w) ''f['' sv))
        else (istringstream '' 1 2 3 4 ]'', ''f[''))
       = (\<lparr>buf = [], eofbit = True, failbit = False\<rparr>, ''f[ 1 2 3 4'')
   \<and> str_find ''f[ 1 2 3 4'' CHR ''['' 0 = Some 1
   \<and> str_find ''f[ 1 2 3 4'' CHR '']'' 1 = None
   \<and> create_token ops_array True ''f[ 1 2 3 4'' = Inr (Some (token ''f[ 1 2 3 4''))
   \<and> create_tokens_loop ops_array True False (istringstream ''f[ 1 2 3 4 ]'') []
       = create_tokens_loop ops_array True False \<lparr>buf = [], eofbit = True, failbit = False\<rparr>
           ([] @ [token ''f[ 1 2 3 4'']))"
proof -
  have a: "\<not> failbit (istringstream ''f[ 1 2 3 4 ] x'')"
    by code_simp
  have b: "get_word (istringstream ''f[ 1 2 3 4 ] x'') [] = (istringstream '' 1 2 3 4 ] x'', ''f['')"
    by code_simp
  have c: "''f['' \<noteq> []"
    by simp
  have d: "(if CHR ''['' \<in> set ''f['' \<and> last ''f['' \<noteq> CHR '']'' then
          (case join_words (istringstream '' 1 2 3 4 ] x'') '' '' [] of
             (strm2, sv) \<Rightarrow> (strm2, foldl (\<lambda>a w. a @ CHR '' '' # w) ''f['' sv))
        else (istringstream '' 1 2 3 4 ] x'', ''f['')) = (istringstream '' x'', ''f[ 1 2 3 4 ]'')"
    by code_simp
  have e: "str_find ''f[ 1 2 3 4 ]'' CHR ''['' 0 = Some 1"
    by code_simp
  have f: "str_find ''f[ 1 2 3 4 ]'' CHR '']'' 1 = Some 11"
    by code_simp
  have g: "length (read_ints (istringstream (between ''f[ 1 2 3 4 ]'' (1 + 1) 11)) []) \<notin> {1, 2, 3}"
    by code_simp
  have a': "\<not> failbit (istringstream ''f[ 1 2 3 4 ]'')"
    by code_simp
  have b': "get_word (istringstream ''f[ 1 2 3 4 ]'') [] = (istringstream '' 1 2 3 4 ]'', ''f['')"
    by code_simp
  have d': "(if CHR ''['' \<in> set ''f['' \<and> last ''f['' \<noteq> CHR '']'' then
          (case join_words (istringstream '' 1 2 3 4 ]'') '' '' [] of
             (strm2, sv) \<Rightarrow> (strm2, foldl (\<lambda>a w. a @ CHR '' '' # w) ''f['' sv))
        else (istringstream '' 1 2 3 4 ]'', ''f[''))
       = (\<lparr>buf = [], eofbit = True, failbit = False\<rparr>, ''f[ 1 2 3 4'')"
    by code_simp
  have e': "str_find ''f[ 1 2 3 4'' CHR ''['' 0 = Some 1"
    by code_simp
  have f': "str_find ''f[ 1 2 3 4'' CHR '']'' 1 = None"
    by code_simp
  from bad_annotation_yields_no_token[OF a b c d e,
      where c = 11 and ops = ops_array and tokens = "[]" and dbg = False]
    bad_annotation_yields_no_token[OF a' b' c d' e',
      where c = 11 and ops = ops_array and tokens = "[]" and dbg = False]
    a b c d e f g a' b' d' e' f'
  show ?thesis by blast
qed

text \<open>
  C4 as stated fails: \<^verbatim>\<open>f[]\<close> (no integer) and \<^verbatim>\<open>f[ 1 2 3 4 ]\<close> (four integers) followed
  by another word leave no token in the result, and so no token of type \<^verbatim>\<open>UNKNOWN\<close>.
\<close>

theorem bad_annotation_counterexample:
  "create_token ops_array True ''f[]'' = Inr None
   \<and> create_tokens ops_array True False ''f[]'' [] = Done () []
   \<and> create_tokens ops_array True False '' 2 f[ 1 2 3 4 ] x '' []
       = Done () [value_token ''2'', name_token ''x'']"
  by code_simp

end
